theory Spec2Isabelle
  imports Complex_Main "HOL-Library.Multiset"
begin

section \<open>Data model\<close>

text \<open>
  The server of the photo editor is a set of request handlers over three relational
  tables (\<^verbatim>\<open>server/src/db/schema.ts\<close>): \<^verbatim>\<open>images\<close>, \<^verbatim>\<open>ai_operations\<close> and
  \<^verbatim>\<open>projects\<close>. The handlers are JavaScript and the tables are PostgreSQL, and the two
  do not have the same values; both kinds are modelled.
\<close>

subsection \<open>JavaScript values\<close>

text \<open>
  A JavaScript number is a double: a real number, or one of \<^verbatim>\<open>NaN\<close>, \<^verbatim>\<open>Infinity\<close> and
  \<^verbatim>\<open>-Infinity\<close>. Every double is a real; the model takes every real for a number.
\<close>

datatype number = Finite real | NaN | Infinity | NegInfinity

definition isInteger :: "number \<Rightarrow> bool" where
  \<comment> \<open>\<^verbatim>\<open>Number.isInteger\<close>\<close>
  "isInteger x = (case x of Finite r \<Rightarrow> r = of_int \<lfloor>r\<rfloor> | _ \<Rightarrow> False)"

definition positive :: "number \<Rightarrow> bool" where
  \<comment> \<open>\<^verbatim>\<open>x > 0\<close>\<close>
  "positive x = (case x of Finite r \<Rightarrow> 0 < r | Infinity \<Rightarrow> True | _ \<Rightarrow> False)"

text \<open>
  A JavaScript string is a sequence of UTF-16 code units. It is modelled as the list of
  the code points it encodes, where a surrogate that is not part of a pair is an
  element of its own. An Isabelle string literal \<open>s\<close> of ASCII characters stands for the
  JavaScript string \<open>js s\<close>.
\<close>

datatype code_point = Scalar nat | Surrogate nat

type_synonym jsstring = "code_point list"

definition js :: "string \<Rightarrow> jsstring" where
  "js s = map (\<lambda>c. Scalar (of_char c)) s"

text \<open>
  The text of an integer in a template literal: its decimal digits, with a minus sign
  for a negative one. The handlers build such a text only from an identifier that a
  query has accepted as a value of an \<^verbatim>\<open>integer\<close> column. \<open>digit_char\<close> is only applied to
  numbers below ten.
\<close>

definition digit_char :: "nat \<Rightarrow> char" where
  "digit_char n = ''0123456789'' ! n"

fun digits :: "nat \<Rightarrow> string" where
  "digits n = (if n < 10 then [digit_char n] else digits (n div 10) @ [digit_char (n mod 10)])"

definition toString :: "int \<Rightarrow> string" where
  "toString i = (if i < 0 then ''-'' @ digits (nat (- i)) else digits (nat i))"

text \<open>The integer a decimal text denotes, to state that the text of an identifier names it.\<close>

definition digit_value :: "char \<Rightarrow> nat" where
  "digit_value c = of_char c - 48"

definition read_digits :: "string \<Rightarrow> nat" where
  "read_digits s = foldl (\<lambda>a c. 10 * a + digit_value c) 0 s"

definition read_decimal :: "string \<Rightarrow> int" where
  "read_decimal s =
     (case s of
        c # cs \<Rightarrow> if c = CHR ''-'' then - int (read_digits cs) else int (read_digits s)
      | [] \<Rightarrow> 0)"

text \<open>
  \<^verbatim>\<open>parseFloat(x.toString())\<close> on a number: the text of a number is the shortest decimal
  that denotes it (\<^verbatim>\<open>Number::toString\<close>), and \<^verbatim>\<open>NaN\<close> and the infinities are printed
  by name, so reading the text gives the number back. In
  \<^verbatim>\<open>x ? parseFloat(x.toString()) : null\<close> on a nullable number, \<^verbatim>\<open>null\<close>, \<open>0\<close> and \<^verbatim>\<open>NaN\<close>
  are falsy and give \<^verbatim>\<open>null\<close>.
\<close>

definition parseFloat_toString :: "number \<Rightarrow> number" where
  "parseFloat_toString t = t"

definition truthy_number :: "number option \<Rightarrow> number option" where
  "truthy_number x =
     (case x of
        None \<Rightarrow> None
      | Some t \<Rightarrow> if t = Finite 0 \<or> t = NaN then None else Some (parseFloat_toString t))"

text \<open>\<^verbatim>\<open>s || null\<close> on a nullable string: \<^verbatim>\<open>null\<close>, \<^verbatim>\<open>undefined\<close> and the empty string
  give \<^verbatim>\<open>null\<close>.\<close>

definition or_null :: "jsstring option \<Rightarrow> jsstring option" where
  "or_null x = (case x of None \<Rightarrow> None | Some s \<Rightarrow> if s = [] then None else Some s)"

subsection \<open>Rows\<close>

text \<open>
  A row is a record with the column names of the table, as the driver hands it to the
  handler: an \<^verbatim>\<open>integer\<close> or \<^verbatim>\<open>serial\<close> column is an \<^typ>\<open>int\<close>, a \<^verbatim>\<open>text\<close> or \<^verbatim>\<open>varchar\<close>
  column a string, a timestamp the number of milliseconds of its \<^verbatim>\<open>Date\<close>, and a
  nullable column an \<^typ>\<open>'a option\<close> with \<^term>\<open>None\<close> for \<^verbatim>\<open>null\<close>. The column \<^verbatim>\<open>id\<close> is
  written \<open>id'\<close>, since \<open>id\<close> is the identity function of HOL. Several records share
  field names, so fields are written qualified (\<open>Image.filename\<close>).
\<close>

datatype AIOperationType = object_removal | style_transfer | image_modification

datatype AIOperationStatus = pending | processing | completed | failed

record Image =
  id' :: int
  filename :: jsstring
  original_filename :: jsstring
  file_path :: jsstring
  file_size :: int
  mime_type :: jsstring
  width :: int
  height :: int
  created_at :: int
  updated_at :: int

record AIOperation =
  id' :: int
  image_id :: int
  operation_type :: AIOperationType
  status :: AIOperationStatus
  prompt :: "jsstring option"
  mask_data :: "jsstring option"
  parameters :: "jsstring option"
  result_image_path :: "jsstring option"
  error_message :: "jsstring option"
  processing_time :: "number option"
  created_at :: int
  updated_at :: int

record Project =
  id' :: int
  name :: jsstring
  description :: "jsstring option"
  original_image_id :: int
  current_image_path :: jsstring
  operations_history :: jsstring
  is_public :: bool
  created_at :: int
  updated_at :: int

text \<open>
  The values of an insert statement: the columns the handler supplies, the texts as
  JavaScript strings. The columns \<^verbatim>\<open>id\<close> (serial), \<^verbatim>\<open>created_at\<close> and \<^verbatim>\<open>updated_at\<close>
  (\<^verbatim>\<open>defaultNow()\<close>) are filled in by the database. For \<^verbatim>\<open>images\<close> the values are the
  seven fields of the upload input.
\<close>

record NewAIOperation =
  image_id :: int
  operation_type :: AIOperationType
  status :: AIOperationStatus
  prompt :: "jsstring option"
  mask_data :: "jsstring option"
  parameters :: "jsstring option"
  result_image_path :: "jsstring option"
  error_message :: "jsstring option"
  processing_time :: "number option"

record NewProject =
  name :: jsstring
  description :: "jsstring option"
  original_image_id :: int
  current_image_path :: jsstring
  operations_history :: jsstring
  is_public :: bool

subsection \<open>Handler inputs\<close>

text \<open>
  The inputs as the handlers receive them (\<^verbatim>\<open>server/src/schema.ts\<close>). An optional field
  is an option with \<^term>\<open>None\<close> for \<^verbatim>\<open>undefined\<close>; the optional and nullable \<^verbatim>\<open>description\<close>
  of an update distinguishes \<^verbatim>\<open>undefined\<close> (\<^term>\<open>None\<close>) from \<^verbatim>\<open>null\<close> (\<^term>\<open>Some None\<close>). The
  parameter bag of an operation is an object of type \<^typ>\<open>'p\<close>: the handlers only test it
  for presence and hand it to \<^verbatim>\<open>JSON.stringify\<close>. The limit and the offset of a listing
  are validated non-negative integers.
\<close>

record UploadImageInput =
  filename :: jsstring
  original_filename :: jsstring
  file_path :: jsstring
  file_size :: number
  mime_type :: jsstring
  width :: number
  height :: number

record 'p ObjectRemovalInput =
  image_id :: number
  mask_data :: jsstring
  parameters :: "'p option"

record 'p StyleTransferInput =
  image_id :: number
  prompt :: jsstring
  parameters :: "'p option"

record 'p ImageModificationInput =
  image_id :: number
  prompt :: jsstring
  mask_data :: "jsstring option"
  parameters :: "'p option"

record CreateProjectInput =
  name :: jsstring
  description :: "jsstring option"
  original_image_id :: number
  is_public :: bool

record UpdateProjectInput =
  id' :: number
  name :: "jsstring option"
  description :: "jsstring option option"
  current_image_path :: "jsstring option"
  operations_history :: "jsstring option"
  is_public :: "bool option"

record ListProjectsInput =
  limit :: nat
  offset :: nat
  public_only :: bool

record ProjectsPage =
  projects :: "Project list"
  total :: nat

definition uploadImageInputSchema :: "UploadImageInput \<Rightarrow> bool" where
  \<comment> \<open>\<^verbatim>\<open>file_size: z.number().positive()\<close>, \<^verbatim>\<open>width\<close> and \<^verbatim>\<open>height\<close>:
      \<^verbatim>\<open>z.number().int().positive()\<close>; the four strings are \<^verbatim>\<open>z.string()\<close>, which accepts
      every string.\<close>
  "uploadImageInputSchema input \<longleftrightarrow>
     positive (UploadImageInput.file_size input) \<and>
     isInteger (UploadImageInput.width input) \<and> positive (UploadImageInput.width input) \<and>
     isInteger (UploadImageInput.height input) \<and> positive (UploadImageInput.height input)"

definition createProjectInputSchema :: "CreateProjectInput \<Rightarrow> bool" where
  \<comment> \<open>\<^verbatim>\<open>name: z.string()\<close>, \<^verbatim>\<open>description: z.string().nullable().optional()\<close>,
      \<^verbatim>\<open>original_image_id: z.number()\<close>, which refuses \<^verbatim>\<open>NaN\<close>, and
      \<^verbatim>\<open>is_public: z.boolean()\<close>.\<close>
  "createProjectInputSchema input \<longleftrightarrow> CreateProjectInput.original_image_id input \<noteq> NaN"


section \<open>The database\<close>

text \<open>
  The state of the store: the rows of the three tables in the order of their insertion,
  and the last value each serial sequence has handed out. The handlers run one after
  the other on this state; a statement of a handler is a function on it.
\<close>

record db =
  imagesTable :: "Image list"
  aiOperationsTable :: "AIOperation list"
  projectsTable :: "Project list"
  images_id_seq :: int
  ai_operations_id_seq :: int
  projects_id_seq :: int

definition createDB :: db where
  "createDB = \<lparr>imagesTable = [], aiOperationsTable = [], projectsTable = [],
     images_id_seq = 0, ai_operations_id_seq = 0, projects_id_seq = 0\<rparr>"

text \<open>
  What a handler can raise: the \<^verbatim>\<open>Error\<close> it throws itself, with its message, or the
  \<^verbatim>\<open>DatabaseError\<close> of a statement the database refuses, which every handler logs and
  throws again unchanged. The code and the message of a \<^verbatim>\<open>DatabaseError\<close> are not
  modelled.
\<close>

datatype error = Error string | DatabaseError

subsection \<open>From JavaScript values to column values\<close>

text \<open>
  The driver sends a number as its text, and the database reads the text as the type
  of the column or of the column it is compared with. For \<^verbatim>\<open>integer\<close> and \<^verbatim>\<open>serial\<close>, a
  signed 32-bit type, the text is accepted when the number is an integer from
  \<open>-2147483648\<close> to \<open>2147483647\<close>; the text of any other number (one with a fraction,
  one out of the range, \<^verbatim>\<open>NaN\<close>, an infinity) is refused.
\<close>

definition int4 :: "number \<Rightarrow> error + int" where
  "int4 x =
     (case x of
        Finite r \<Rightarrow>
          if r = of_int \<lfloor>r\<rfloor> \<and> - 2147483648 \<le> \<lfloor>r\<rfloor> \<and> \<lfloor>r\<rfloor> \<le> 2147483647 then Inr \<lfloor>r\<rfloor>
          else Inl DatabaseError
      | _ \<Rightarrow> Inl DatabaseError)"

text \<open>
  The driver sends a string in UTF-8, with the replacement character U+FFFD for a
  surrogate that is not part of a pair. The database refuses a text with the character
  U+0000. \<^verbatim>\<open>varchar(n)\<close> stores a text of at most \<open>n\<close> characters; a longer text is
  refused, unless all characters beyond the first \<open>n\<close> are spaces: then the first \<open>n\<close>
  characters are stored. \<^verbatim>\<open>text\<close> has no bound on the length (the limits of the memory
  of the server are not modelled); the column type is written \<open>text'\<close>, since \<open>text\<close> is a
  keyword of Isabelle.
\<close>

definition toWellFormed :: "jsstring \<Rightarrow> jsstring" where
  "toWellFormed s = map (\<lambda>c. case c of Scalar n \<Rightarrow> Scalar n | Surrogate n \<Rightarrow> Scalar 65533) s"

definition text' :: "jsstring \<Rightarrow> error + jsstring" where
  "text' s = (if list_ex (\<lambda>c. c = Scalar 0) s then Inl DatabaseError else Inr (toWellFormed s))"

definition varchar :: "nat \<Rightarrow> jsstring \<Rightarrow> error + jsstring" where
  "varchar n s =
     (case text' s of
        Inl e \<Rightarrow> Inl e
      | Inr t \<Rightarrow>
          if length t \<le> n then Inr t
          else if list_all (\<lambda>c. c = Scalar 32) (drop n t) then Inr (take n t)
          else Inl DatabaseError)"

definition nullable :: "('a \<Rightarrow> error + 'b) \<Rightarrow> 'a option \<Rightarrow> error + 'b option" where
  "nullable column x =
     (case x of
        None \<Rightarrow> Inr None
      | Some v \<Rightarrow> (case column v of Inl e \<Rightarrow> Inl e | Inr w \<Rightarrow> Inr (Some w)))"

text \<open>
  The sequence of a \<^verbatim>\<open>serial\<close> column hands out the value after its last one, up to
  \<open>2147483647\<close>; beyond, the insert is refused.
\<close>

definition nextval :: "int \<Rightarrow> error + int" where
  "nextval last_value = (if last_value < 2147483647 then Inr (last_value + 1) else Inl DatabaseError)"

subsection \<open>Statements\<close>

text \<open>
  \<^verbatim>\<open>db.insert(imagesTable).values(v).returning().execute()\<close>: the values are converted
  to the column types, the row gets the next value of the sequence as its primary key,
  which no other row may have, and the time of the database as both timestamps, and is
  appended. The statement returns the row. A statement that is refused stores no row.
\<close>

definition insert_imagesTable :: "int \<Rightarrow> UploadImageInput \<Rightarrow> db \<Rightarrow> error + Image \<times> db" where
  "insert_imagesTable now v d =
     (case varchar 255 (UploadImageInput.filename v) of Inl e \<Rightarrow> Inl e | Inr fn \<Rightarrow>
      case varchar 255 (UploadImageInput.original_filename v) of Inl e \<Rightarrow> Inl e | Inr ofn \<Rightarrow>
      case text' (UploadImageInput.file_path v) of Inl e \<Rightarrow> Inl e | Inr fp \<Rightarrow>
      case int4 (UploadImageInput.file_size v) of Inl e \<Rightarrow> Inl e | Inr fs \<Rightarrow>
      case varchar 100 (UploadImageInput.mime_type v) of Inl e \<Rightarrow> Inl e | Inr mt \<Rightarrow>
      case int4 (UploadImageInput.width v) of Inl e \<Rightarrow> Inl e | Inr w \<Rightarrow>
      case int4 (UploadImageInput.height v) of Inl e \<Rightarrow> Inl e | Inr h \<Rightarrow>
      case nextval (images_id_seq d) of Inl e \<Rightarrow> Inl e | Inr k \<Rightarrow>
        if list_ex (\<lambda>i. Image.id' i = k) (imagesTable d) then Inl DatabaseError
        else
          let row = \<lparr>Image.id' = k,
                     Image.filename = fn,
                     Image.original_filename = ofn,
                     Image.file_path = fp,
                     Image.file_size = fs,
                     Image.mime_type = mt,
                     Image.width = w,
                     Image.height = h,
                     Image.created_at = now,
                     Image.updated_at = now\<rparr>
          in Inr (row, d\<lparr>imagesTable := imagesTable d @ [row], images_id_seq := k\<rparr>))"

text \<open>
  The two dependent tables reference \<^verbatim>\<open>images.id\<close>: a row whose image does not exist is
  refused. The handlers insert such a row only after a query has accepted the identifier
  of the image as an \<^verbatim>\<open>integer\<close>; the insert reads the same number as the same integer,
  which is the value given here.
\<close>

definition insert_aiOperationsTable :: "int \<Rightarrow> NewAIOperation \<Rightarrow> db \<Rightarrow> error + AIOperation \<times> db" where
  "insert_aiOperationsTable now v d =
     (case nullable text' (NewAIOperation.prompt v) of Inl e \<Rightarrow> Inl e | Inr p \<Rightarrow>
      case nullable text' (NewAIOperation.mask_data v) of Inl e \<Rightarrow> Inl e | Inr m \<Rightarrow>
      case nullable text' (NewAIOperation.parameters v) of Inl e \<Rightarrow> Inl e | Inr ps \<Rightarrow>
      case nullable text' (NewAIOperation.result_image_path v) of Inl e \<Rightarrow> Inl e | Inr rp \<Rightarrow>
      case nullable text' (NewAIOperation.error_message v) of Inl e \<Rightarrow> Inl e | Inr em \<Rightarrow>
      case nextval (ai_operations_id_seq d) of Inl e \<Rightarrow> Inl e | Inr k \<Rightarrow>
        if list_ex (\<lambda>operation. AIOperation.id' operation = k) (aiOperationsTable d)
        then Inl DatabaseError
        else if filter (\<lambda>i. Image.id' i = NewAIOperation.image_id v) (imagesTable d) = []
        then Inl DatabaseError
        else
          let row = \<lparr>AIOperation.id' = k,
                     AIOperation.image_id = NewAIOperation.image_id v,
                     AIOperation.operation_type = NewAIOperation.operation_type v,
                     AIOperation.status = NewAIOperation.status v,
                     AIOperation.prompt = p,
                     AIOperation.mask_data = m,
                     AIOperation.parameters = ps,
                     AIOperation.result_image_path = rp,
                     AIOperation.error_message = em,
                     AIOperation.processing_time = NewAIOperation.processing_time v,
                     AIOperation.created_at = now,
                     AIOperation.updated_at = now\<rparr>
          in Inr (row, d\<lparr>aiOperationsTable := aiOperationsTable d @ [row],
                          ai_operations_id_seq := k\<rparr>))"

definition insert_projectsTable :: "int \<Rightarrow> NewProject \<Rightarrow> db \<Rightarrow> error + Project \<times> db" where
  "insert_projectsTable now v d =
     (case varchar 255 (NewProject.name v) of Inl e \<Rightarrow> Inl e | Inr n \<Rightarrow>
      case nullable text' (NewProject.description v) of Inl e \<Rightarrow> Inl e | Inr ds \<Rightarrow>
      case text' (NewProject.current_image_path v) of Inl e \<Rightarrow> Inl e | Inr cp \<Rightarrow>
      case text' (NewProject.operations_history v) of Inl e \<Rightarrow> Inl e | Inr oh \<Rightarrow>
      case nextval (projects_id_seq d) of Inl e \<Rightarrow> Inl e | Inr k \<Rightarrow>
        if list_ex (\<lambda>p. Project.id' p = k) (projectsTable d) then Inl DatabaseError
        else if filter (\<lambda>i. Image.id' i = NewProject.original_image_id v) (imagesTable d) = []
        then Inl DatabaseError
        else
          let row = \<lparr>Project.id' = k,
                     Project.name = n,
                     Project.description = ds,
                     Project.original_image_id = NewProject.original_image_id v,
                     Project.current_image_path = cp,
                     Project.operations_history = oh,
                     Project.is_public = NewProject.is_public v,
                     Project.created_at = now,
                     Project.updated_at = now\<rparr>
          in Inr (row, d\<lparr>projectsTable := projectsTable d @ [row], projects_id_seq := k\<rparr>))"

text \<open>
  \<^verbatim>\<open>orderBy(desc(aiOperationsTable.created_at))\<close>: the rows sorted by falling creation
  time. The order of rows with the same creation time is left open by the database;
  the model keeps them in the order of the table.
\<close>

definition orderBy_desc_created_at :: "AIOperation list \<Rightarrow> AIOperation list" where
  "orderBy_desc_created_at rows = sort_key (\<lambda>r. - AIOperation.created_at r) rows"

section \<open>Handlers\<close>

text \<open>
  The repository holds most handlers twice: as the scaffolding stub that returns a fixed
  value, and as the implementation that queries the database. The implementation is
  what is embedded here; \<^verbatim>\<open>updateProject\<close> exists as the stub only. A handler returns
  \<^term>\<open>Inl\<close> of what it throws, or \<^term>\<open>Inr\<close> of its result; a handler that writes returns the
  new state of the store with the result, and a handler that throws has stored no row
  (a refused insert may have taken a value from the sequence; a well-formed store asks
  of a sequence only that it is at or beyond the identifiers of the table).
  The argument \<open>now\<close> is the time of the database at the statement, and
  \<open>JSON_stringify\<close> is \<^verbatim>\<open>JSON.stringify\<close> of the runtime on parameter bags.

  A query \<^verbatim>\<open>where(eq(column, x))\<close> on an \<^verbatim>\<open>integer\<close> column first reads the number \<open>x\<close>
  as an integer. When the database refuses it, the query fails and the handler throws
  the error again; otherwise \<open>x\<close> is that integer from there on, written with a prime.
\<close>

subsection \<open>Images\<close>

definition uploadImage :: "int \<Rightarrow> UploadImageInput \<Rightarrow> db \<Rightarrow> error + Image \<times> db" where
  "uploadImage now input d =
     (case insert_imagesTable now input d of
        Inl e \<Rightarrow> Inl e
      | Inr (image', d') \<Rightarrow>
          Inr (\<lparr>Image.id' = Image.id' image',
                Image.filename = Image.filename image',
                Image.original_filename = Image.original_filename image',
                Image.file_path = Image.file_path image',
                Image.file_size = Image.file_size image',
                Image.mime_type = Image.mime_type image',
                Image.width = Image.width image',
                Image.height = Image.height image',
                Image.created_at = Image.created_at image',
                Image.updated_at = Image.updated_at image'\<rparr>, d'))"

definition getImage :: "number \<Rightarrow> db \<Rightarrow> error + Image option" where
  "getImage imageId d =
     (case int4 imageId of
        Inl e \<Rightarrow> Inl e
      | Inr imageId' \<Rightarrow>
          let results = filter (\<lambda>i. Image.id' i = imageId') (imagesTable d)
          in if length results = 0 then Inr None else Inr (Some (results ! 0)))"

subsection \<open>Operations\<close>

definition removeObject ::
    "('p \<Rightarrow> jsstring) \<Rightarrow> int \<Rightarrow> 'p ObjectRemovalInput \<Rightarrow> db \<Rightarrow> error + AIOperation \<times> db" where
  "removeObject JSON_stringify now input d =
     (case int4 (ObjectRemovalInput.image_id input) of
        Inl e \<Rightarrow> Inl e
      | Inr image_id' \<Rightarrow>
          let existingImages = filter (\<lambda>i. Image.id' i = image_id') (imagesTable d)
          in if length existingImages = 0
             then Inl (Error (''Image with id '' @ toString image_id' @ '' not found''))
             else
               let parametersJson =
                     (case ObjectRemovalInput.parameters input of
                        Some p \<Rightarrow> Some (JSON_stringify p) | None \<Rightarrow> None)
               in case insert_aiOperationsTable now
                         \<lparr>NewAIOperation.image_id = image_id',
                          NewAIOperation.operation_type = object_removal,
                          NewAIOperation.status = pending,
                          NewAIOperation.prompt = None,
                          NewAIOperation.mask_data = Some (ObjectRemovalInput.mask_data input),
                          NewAIOperation.parameters = parametersJson,
                          NewAIOperation.result_image_path = None,
                          NewAIOperation.error_message = None,
                          NewAIOperation.processing_time = None\<rparr> d of
                    Inl e \<Rightarrow> Inl e
                  | Inr (operation, d') \<Rightarrow>
                      Inr (operation\<lparr>AIOperation.processing_time :=
                             truthy_number (AIOperation.processing_time operation)\<rparr>, d'))"

definition applyStyleTransfer ::
    "('p \<Rightarrow> jsstring) \<Rightarrow> int \<Rightarrow> 'p StyleTransferInput \<Rightarrow> db \<Rightarrow> error + AIOperation \<times> db" where
  "applyStyleTransfer JSON_stringify now input d =
     (case int4 (StyleTransferInput.image_id input) of
        Inl e \<Rightarrow> Inl e
      | Inr image_id' \<Rightarrow>
          let existingImage = filter (\<lambda>i. Image.id' i = image_id') (imagesTable d)
          in if length existingImage = 0
             then Inl (Error (''Image with id '' @ toString image_id' @ '' not found''))
             else
               let parametersJson =
                     (case StyleTransferInput.parameters input of
                        Some p \<Rightarrow> Some (JSON_stringify p) | None \<Rightarrow> None)
               in case insert_aiOperationsTable now
                         \<lparr>NewAIOperation.image_id = image_id',
                          NewAIOperation.operation_type = style_transfer,
                          NewAIOperation.status = pending,
                          NewAIOperation.prompt = Some (StyleTransferInput.prompt input),
                          NewAIOperation.mask_data = None,
                          NewAIOperation.parameters = parametersJson,
                          NewAIOperation.result_image_path = None,
                          NewAIOperation.error_message = None,
                          NewAIOperation.processing_time = None\<rparr> d of
                    Inl e \<Rightarrow> Inl e
                  | Inr (operation, d') \<Rightarrow>
                      Inr (operation\<lparr>AIOperation.processing_time :=
                             truthy_number (AIOperation.processing_time operation)\<rparr>, d'))"

definition modifyImage ::
    "('p \<Rightarrow> jsstring) \<Rightarrow> int \<Rightarrow> 'p ImageModificationInput \<Rightarrow> db \<Rightarrow> error + AIOperation \<times> db" where
  "modifyImage JSON_stringify now input d =
     (case int4 (ImageModificationInput.image_id input) of
        Inl e \<Rightarrow> Inl e
      | Inr image_id' \<Rightarrow>
          let existingImages = filter (\<lambda>i. Image.id' i = image_id') (imagesTable d)
          in if length existingImages = 0
             then Inl (Error (''Image with id '' @ toString image_id' @ '' not found''))
             else
               let parametersJson =
                     (case ImageModificationInput.parameters input of
                        Some p \<Rightarrow> Some (JSON_stringify p) | None \<Rightarrow> None)
               in case insert_aiOperationsTable now
                         \<lparr>NewAIOperation.image_id = image_id',
                          NewAIOperation.operation_type = image_modification,
                          NewAIOperation.status = pending,
                          NewAIOperation.prompt = Some (ImageModificationInput.prompt input),
                          NewAIOperation.mask_data = or_null (ImageModificationInput.mask_data input),
                          NewAIOperation.parameters = parametersJson,
                          NewAIOperation.result_image_path = None,
                          NewAIOperation.error_message = None,
                          NewAIOperation.processing_time = None\<rparr> d of
                    Inl e \<Rightarrow> Inl e
                  | Inr (operation, d') \<Rightarrow>
                      Inr (operation\<lparr>AIOperation.processing_time :=
                             truthy_number (AIOperation.processing_time operation)\<rparr>, d'))"

definition getOperationResult :: "number \<Rightarrow> db \<Rightarrow> error + AIOperation option" where
  "getOperationResult operationId d =
     (case int4 operationId of
        Inl e \<Rightarrow> Inl e
      | Inr operationId' \<Rightarrow>
          let results = filter (\<lambda>operation. AIOperation.id' operation = operationId') (aiOperationsTable d)
          in if length results = 0 then Inr None
             else
               let operation = results ! 0
               in Inr (Some (operation\<lparr>AIOperation.processing_time :=
                               truthy_number (AIOperation.processing_time operation)\<rparr>)))"

definition listOperations :: "number option \<Rightarrow> db \<Rightarrow> error + AIOperation list" where
  "listOperations imageId d =
     (case (case imageId of
              Some x \<Rightarrow>
                (case int4 x of
                   Inl e \<Rightarrow> Inl e
                 | Inr i \<Rightarrow> Inr (filter (\<lambda>operation. AIOperation.image_id operation = i)
                                 (aiOperationsTable d)))
            | None \<Rightarrow> Inr (aiOperationsTable d)) of
        Inl e \<Rightarrow> Inl e
      | Inr query \<Rightarrow>
          let results = orderBy_desc_created_at query
          in Inr (map (\<lambda>operation. operation\<lparr>AIOperation.processing_time :=
                         (case AIOperation.processing_time operation of
                            Some t \<Rightarrow> Some (parseFloat_toString t) | None \<Rightarrow> None)\<rparr>) results))"

subsection \<open>Projects\<close>

definition createProject :: "int \<Rightarrow> CreateProjectInput \<Rightarrow> db \<Rightarrow> error + Project \<times> db" where
  "createProject now input d =
     (case int4 (CreateProjectInput.original_image_id input) of
        Inl e \<Rightarrow> Inl e
      | Inr original_image_id' \<Rightarrow>
          let existingImage = filter (\<lambda>i. Image.id' i = original_image_id') (imagesTable d)
          in if length existingImage = 0
             then Inl (Error (''Image with id '' @ toString original_image_id' @ '' not found''))
             else
               let imageRecord = existingImage ! 0
               in case insert_projectsTable now
                         \<lparr>NewProject.name = CreateProjectInput.name input,
                          NewProject.description = or_null (CreateProjectInput.description input),
                          NewProject.original_image_id = original_image_id',
                          NewProject.current_image_path = Image.file_path imageRecord,
                          NewProject.operations_history = js ''[]'',
                          NewProject.is_public = (CreateProjectInput.is_public input \<or> False)\<rparr> d of
                    Inl e \<Rightarrow> Inl e
                  | Inr (project, d') \<Rightarrow> Inr (project, d'))"

definition getProject :: "number \<Rightarrow> db \<Rightarrow> error + Project option" where
  "getProject projectId d =
     (case int4 projectId of
        Inl e \<Rightarrow> Inl e
      | Inr projectId' \<Rightarrow>
          let results = filter (\<lambda>p. Project.id' p = projectId') (projectsTable d)
          in if length results = 0 then Inr None
             else
               let project = results ! 0
               in Inr (Some (project\<lparr>Project.created_at := Project.created_at project,
                                      Project.updated_at := Project.updated_at project\<rparr>)))"

definition listProjects :: "ListProjectsInput \<Rightarrow> db \<Rightarrow> error + ProjectsPage" where
  "listProjects input d =
     (if ListProjectsInput.public_only input
      then
        let projects = take (ListProjectsInput.limit input) (drop (ListProjectsInput.offset input)
                         (filter (\<lambda>p. Project.is_public p = True) (projectsTable d)));
            total = length (filter (\<lambda>p. Project.is_public p = True) (projectsTable d))
        in Inr \<lparr>ProjectsPage.projects = projects, ProjectsPage.total = total\<rparr>
      else
        let projects = take (ListProjectsInput.limit input) (drop (ListProjectsInput.offset input)
                         (projectsTable d));
            total = length (projectsTable d)
        in Inr \<lparr>ProjectsPage.projects = projects, ProjectsPage.total = total\<rparr>)"

text \<open>
  \<^verbatim>\<open>updateProject\<close> as \<^verbatim>\<open>server/src/handlers/update_project.ts\<close> has it: the handler
  resolves to \<^verbatim>\<open>null\<close> for every input and issues no statement.
\<close>

definition updateProject :: "UpdateProjectInput \<Rightarrow> db \<Rightarrow> error + Project option \<times> db" where
  "updateProject input d = Inr (None, d)"

section \<open>Stores\<close>

text \<open>
  A text as the database stores it has neither the character U+0000 nor an unpaired
  surrogate.
\<close>

definition nul_free :: "jsstring \<Rightarrow> bool" where
  "nul_free s = list_all (\<lambda>c. c \<noteq> Scalar 0) s"

definition stored :: "jsstring \<Rightarrow> bool" where
  "stored s = list_all (\<lambda>c. case c of Scalar n \<Rightarrow> n \<noteq> 0 | Surrogate n \<Rightarrow> False) s"

definition stored_opt :: "jsstring option \<Rightarrow> bool" where
  "stored_opt x = (case x of None \<Rightarrow> True | Some s \<Rightarrow> stored s)"

text \<open>
  A store as the database keeps it: within a table no two rows share an identifier,
  every identifier has been handed out by the sequence of its table, the sequences are
  within their range, and every text is a stored text.
\<close>

definition wf_db :: "db \<Rightarrow> bool" where
  "wf_db d \<longleftrightarrow>
     distinct (map Image.id' (imagesTable d)) \<and>
     list_all (\<lambda>i. Image.id' i \<le> images_id_seq d) (imagesTable d) \<and>
     0 \<le> images_id_seq d \<and> images_id_seq d \<le> 2147483647 \<and>
     list_all (\<lambda>i. stored (Image.filename i) \<and> stored (Image.original_filename i) \<and>
                   stored (Image.file_path i) \<and> stored (Image.mime_type i)) (imagesTable d) \<and>
     distinct (map AIOperation.id' (aiOperationsTable d)) \<and>
     list_all (\<lambda>operation. AIOperation.id' operation \<le> ai_operations_id_seq d) (aiOperationsTable d) \<and>
     0 \<le> ai_operations_id_seq d \<and> ai_operations_id_seq d \<le> 2147483647 \<and>
     list_all (\<lambda>operation. stored_opt (AIOperation.prompt operation) \<and>
                           stored_opt (AIOperation.mask_data operation) \<and>
                           stored_opt (AIOperation.parameters operation) \<and>
                           stored_opt (AIOperation.result_image_path operation) \<and>
                           stored_opt (AIOperation.error_message operation)) (aiOperationsTable d) \<and>
     distinct (map Project.id' (projectsTable d)) \<and>
     list_all (\<lambda>p. Project.id' p \<le> projects_id_seq d) (projectsTable d) \<and>
     0 \<le> projects_id_seq d \<and> projects_id_seq d \<le> 2147483647 \<and>
     list_all (\<lambda>p. stored (Project.name p) \<and> stored_opt (Project.description p) \<and>
                   stored (Project.current_image_path p) \<and>
                   stored (Project.operations_history p)) (projectsTable d)"

text \<open>
  Whether the table \<^verbatim>\<open>images\<close> has a row with the identifier \<open>k\<close>.
\<close>

definition image_exists :: "int \<Rightarrow> db \<Rightarrow> bool" where
  "image_exists k d \<longleftrightarrow> list_ex (\<lambda>i. Image.id' i = k) (imagesTable d)"

subsection \<open>Fixtures\<close>

text \<open>
  The image of the test suites with the input that uploads it, the store that holds it
  alone, and a store seeded with three operations on it, created at different times, and
  six projects of which five are public.
\<close>

definition testImageInput :: UploadImageInput where
  "testImageInput =
     \<lparr>UploadImageInput.filename = js ''test-image.jpg'',
      UploadImageInput.original_filename = js ''original-test.jpg'',
      UploadImageInput.file_path = js ''/uploads/test-image.jpg'',
      UploadImageInput.file_size = Finite 1024000,
      UploadImageInput.mime_type = js ''image/jpeg'',
      UploadImageInput.width = Finite 1920,
      UploadImageInput.height = Finite 1080\<rparr>"

definition testImage :: Image where
  "testImage =
     \<lparr>Image.id' = 1,
      Image.filename = js ''test-image.jpg'',
      Image.original_filename = js ''original-test.jpg'',
      Image.file_path = js ''/uploads/test-image.jpg'',
      Image.file_size = 1024000,
      Image.mime_type = js ''image/jpeg'',
      Image.width = 1920,
      Image.height = 1080,
      Image.created_at = 1000,
      Image.updated_at = 1000\<rparr>"

definition testDB :: db where
  "testDB = createDB\<lparr>imagesTable := [testImage], images_id_seq := 1\<rparr>"

definition testOperation :: "int \<Rightarrow> int \<Rightarrow> int \<Rightarrow> AIOperation" where
  "testOperation k i t =
     \<lparr>AIOperation.id' = k,
      AIOperation.image_id = i,
      AIOperation.operation_type = style_transfer,
      AIOperation.status = pending,
      AIOperation.prompt = Some (js ''watercolor painting style''),
      AIOperation.mask_data = None,
      AIOperation.parameters = None,
      AIOperation.result_image_path = None,
      AIOperation.error_message = None,
      AIOperation.processing_time = None,
      AIOperation.created_at = t,
      AIOperation.updated_at = t\<rparr>"

definition testProject :: "int \<Rightarrow> bool \<Rightarrow> Project" where
  "testProject k public =
     \<lparr>Project.id' = k,
      Project.name = js ''Test Project'',
      Project.description = Some (js ''A test project''),
      Project.original_image_id = 1,
      Project.current_image_path = js ''/uploads/test-image.jpg'',
      Project.operations_history = js ''[]'',
      Project.is_public = public,
      Project.created_at = 2000,
      Project.updated_at = 2000\<rparr>"

definition seededDB :: db where
  "seededDB =
     testDB\<lparr>aiOperationsTable := [testOperation 1 1 1000, testOperation 2 1 3000, testOperation 3 1 2000],
            ai_operations_id_seq := 3,
            projectsTable := [testProject 1 True, testProject 2 False, testProject 3 True,
                              testProject 4 True, testProject 5 True, testProject 6 True],
            projects_id_seq := 6\<rparr>"

section \<open>Column values\<close>

text \<open>
  What the conversions of the database accept and what they store: an \<^verbatim>\<open>integer\<close>
  parameter is accepted exactly when it is an integer of 32 bits, and a text exactly when
  it has no character U+0000.
\<close>

lemma int4_of_int:
  "- 2147483648 \<le> k \<Longrightarrow> k \<le> 2147483647 \<Longrightarrow> int4 (Finite (of_int k)) = Inr k"
  by (simp add: int4_def)

lemma int4_Inr_iff:
  "int4 x = Inr k \<longleftrightarrow> x = Finite (of_int k) \<and> - 2147483648 \<le> k \<and> k \<le> 2147483647"
  by (cases x) (auto simp add: int4_def)

lemma int4_Inl: "int4 x = Inl e \<Longrightarrow> e = DatabaseError"
  by (cases x) (auto simp add: int4_def split: if_splits)

lemma int4_cases: "int4 x = Inl DatabaseError \<or> (\<exists>k. int4 x = Inr k)"
  by (cases x) (auto simp add: int4_def)

lemma stored_nul_free: "stored s \<Longrightarrow> nul_free s"
  by (induction s) (auto simp add: stored_def nul_free_def split: code_point.splits)

lemma toWellFormed_stored: "stored s \<Longrightarrow> toWellFormed s = s"
  by (induction s) (auto simp add: stored_def toWellFormed_def split: code_point.splits)

lemma stored_toWellFormed: "nul_free s \<Longrightarrow> stored (toWellFormed s)"
  by (induction s) (auto simp add: stored_def nul_free_def toWellFormed_def split: code_point.splits)

lemma length_toWellFormed: "length (toWellFormed s) = length s"
  by (simp add: toWellFormed_def)

lemma text_nul_free: "nul_free s \<Longrightarrow> text' s = Inr (toWellFormed s)"
  by (simp add: text'_def nul_free_def list_ex_iff list_all_iff)

lemma text_nul: "\<not> nul_free s \<Longrightarrow> text' s = Inl DatabaseError"
  by (simp add: text'_def nul_free_def list_ex_iff list_all_iff)

lemma text_stored: "stored s \<Longrightarrow> text' s = Inr s"
  by (simp add: text_nul_free stored_nul_free toWellFormed_stored)

lemma text_Inr: "text' s = Inr t \<Longrightarrow> stored t \<and> nul_free s \<and> t = toWellFormed s"
  by (cases "nul_free s") (auto simp add: text_nul_free text_nul stored_toWellFormed)

lemma stored_take: "stored s \<Longrightarrow> stored (take n s)"
  by (auto simp add: stored_def list_all_iff dest: in_set_takeD)

lemma varchar_nul_free:
  "nul_free s \<Longrightarrow> length s \<le> n \<Longrightarrow> varchar n s = Inr (toWellFormed s)"
  by (simp add: varchar_def text_nul_free length_toWellFormed)

lemma varchar_stored: "stored s \<Longrightarrow> length s \<le> n \<Longrightarrow> varchar n s = Inr s"
  by (simp add: varchar_nul_free stored_nul_free toWellFormed_stored)

lemma varchar_Inr: "varchar n s = Inr t \<Longrightarrow> stored t"
  by (auto simp add: varchar_def stored_take split: sum.splits if_splits dest: text_Inr)

lemma nullable_text_Inr: "nullable text' x = Inr y \<Longrightarrow> stored_opt y"
  by (cases x) (auto simp add: nullable_def stored_opt_def split: sum.splits dest: text_Inr)

lemma nullable_text_nul_free:
  "(case x of None \<Rightarrow> True | Some s \<Rightarrow> nul_free s) \<Longrightarrow>
   nullable text' x = Inr (map_option toWellFormed x)"
  by (cases x) (simp_all add: nullable_def text_nul_free)

lemma nullable_text_None_iff: "nullable text' x = Inr None \<longleftrightarrow> x = None"
  by (cases x) (auto simp add: nullable_def split: sum.splits)

lemma nextval_Inr: "nextval n = Inr k \<longleftrightarrow> n < 2147483647 \<and> k = n + 1"
  by (auto simp add: nextval_def)

lemma stored_js:
  assumes "CHR 0x00 \<notin> set s"
  shows "stored (js s)"
proof -
  have z: "(of_char (CHR 0x00) :: nat) = 0" by simp
  have "\<forall>c\<in>set s. (of_char c :: nat) \<noteq> 0"
  proof
    fix c
    assume "c \<in> set s"
    with assms have "c \<noteq> CHR 0x00" by auto
    with z show "(of_char c :: nat) \<noteq> 0" by (metis of_char_eq_iff)
  qed
  then show ?thesis by (simp add: stored_def js_def list_all_iff)
qed

lemma length_js: "length (js s) = length s"
  by (simp add: js_def)

lemma nullable_text_Inr_eq:
  "nullable text' x = Inr y \<Longrightarrow> y = map_option toWellFormed x"
  by (cases x) (auto simp add: nullable_def split: sum.splits dest: text_Inr)

lemma image_exists_filter: "image_exists k d \<longleftrightarrow> filter (\<lambda>i. Image.id' i = k) (imagesTable d) \<noteq> []"
  by (simp add: image_exists_def list_ex_iff filter_empty_conv)

lemma fresh_id: "list_all (\<lambda>x. f x \<le> (n::int)) xs \<Longrightarrow> \<not> list_ex (\<lambda>x. f x = n + 1) xs"
  by (induction xs) auto

section \<open>Evaluation\<close>

lemma digits_small: "n < 10 \<Longrightarrow> digits n = [digit_char n]"
  by simp

lemma digits_large: "\<not> n < 10 \<Longrightarrow> digits n = digits (n div 10) @ [digit_char (n mod 10)]"
  by (subst digits.simps) simp

lemmas toString_eval = toString_def digits_small digits_large digit_char_def

declare digits.simps [simp del]

text \<open>The decimal text of an integer denotes that integer.\<close>

lemma below_ten: "(\<forall>n<10. P (n::nat)) \<longleftrightarrow> list_all P [0, 1, 2, 3, 4, 5, 6, 7, 8, 9]"
proof -
  have "[0, 1, 2, 3, 4, 5, 6, 7, 8, 9] = [0..<10::nat]"
    by (simp add: upt_rec)
  then show ?thesis
    by (simp only: list_all_iff) auto
qed

lemma digit_value_digit_char: "n < 10 \<Longrightarrow> digit_value (digit_char n) = n"
proof -
  have "\<forall>n<10. digit_value (digit_char n) = n"
    unfolding below_ten by (simp add: digit_value_def digit_char_def)
  then show "n < 10 \<Longrightarrow> digit_value (digit_char n) = n" by simp
qed

lemma digit_char_not_minus: "n < 10 \<Longrightarrow> digit_char n \<noteq> CHR ''-''"
proof -
  have "\<forall>n<10. digit_char n \<noteq> CHR ''-''"
    unfolding below_ten by (simp add: digit_char_def)
  then show "n < 10 \<Longrightarrow> digit_char n \<noteq> CHR ''-''" by simp
qed

lemma read_digits_snoc: "read_digits (s @ [c]) = 10 * read_digits s + digit_value c"
  by (simp add: read_digits_def)

lemma read_digits_digits: "read_digits (digits n) = n"
proof (induction n rule: digits.induct)
  case (1 n)
  show ?case
  proof (cases "n < 10")
    case True
    then show ?thesis
      by (simp add: digits_small read_digits_def digit_value_digit_char)
  next
    case False
    with 1 have "read_digits (digits (n div 10)) = n div 10" by simp
    with False show ?thesis
      by (simp add: digits_large read_digits_snoc digit_value_digit_char)
  qed
qed

lemma digits_head: "\<exists>c cs. digits n = c # cs \<and> c \<noteq> CHR ''-''"
proof (induction n rule: digits.induct)
  case (1 n)
  show ?case
  proof (cases "n < 10")
    case True
    then show ?thesis
      by (simp add: digits_small digit_char_not_minus)
  next
    case False
    with 1 obtain c cs where "digits (n div 10) = c # cs" "c \<noteq> CHR ''-''" by blast
    with False show ?thesis
      by (simp add: digits_large)
  qed
qed

lemma read_decimal_toString: "read_decimal (toString i) = i"
proof (cases "i < 0")
  case True
  then show ?thesis
    by (simp add: read_decimal_def toString_def read_digits_digits)
next
  case False
  obtain c cs where "digits (nat i) = c # cs" "c \<noteq> CHR ''-''"
    using digits_head by blast
  with False read_digits_digits [of "nat i"] show ?thesis
    by (simp add: read_decimal_def toString_def)
qed

lemma nul_free_js: "CHR 0x00 \<notin> set s \<Longrightarrow> nul_free (js s)"
  by (rule stored_nul_free) (rule stored_js)

lemma int4_numeral [simp]:
  "int4 (Finite (numeral n)) = (if (numeral n :: int) \<le> 2147483647 then Inr (numeral n) else Inl DatabaseError)"
  by (simp add: int4_def)

lemma int4_one [simp]: "int4 (Finite 1) = Inr 1"
  by (simp add: int4_def)

lemmas fixtures = seededDB_def testDB_def createDB_def testImage_def testOperation_def
  testProject_def testImageInput_def

section \<open>Rows by identifier\<close>

text \<open>
  The next value of a sequence is the identifier of no row of a well-formed table, so a
  row inserted with it is the only one a query by that identifier finds.
\<close>

lemma filter_fresh:
  "list_all (\<lambda>x. f x \<le> (n::int)) xs \<Longrightarrow> filter (\<lambda>x. f x = n + 1) xs = []"
  by (induction xs) auto

lemma filter_unique:
  "distinct (map f xs) \<Longrightarrow> x \<in> set xs \<Longrightarrow> filter (\<lambda>y. f y = f x) xs = [x]"
proof (induction xs)
  case Nil
  then show ?case by simp
next
  case (Cons a xs)
  show ?case
  proof (cases "a = x")
    case True
    with Cons.prems have "f x \<notin> f ` set xs" by simp
    then have "\<forall>y\<in>set xs. f y \<noteq> f x" by (metis imageI)
    then have "filter (\<lambda>y. f y = f x) xs = []" by (simp add: filter_empty_conv)
    with True show ?thesis by simp
  next
    case False
    with Cons.prems have "x \<in> set xs" "f a \<noteq> f x" by auto
    with Cons show ?thesis by simp
  qed
qed

lemma getImage_appended:
  assumes "list_all (\<lambda>i. Image.id' i \<le> images_id_seq d) (imagesTable d)"
    and "0 \<le> images_id_seq d" and "images_id_seq d < 2147483647"
    and "Image.id' image' = images_id_seq d + 1"
    and "imagesTable d' = imagesTable d @ [image']"
  shows "getImage (Finite (of_int (Image.id' image'))) d' = Inr (Some image')"
proof -
  have "int4 (Finite (of_int (images_id_seq d + 1))) = Inr (images_id_seq d + 1)"
    using assms(2,3) by (intro int4_of_int) simp_all
  then have "int4 (Finite (of_int (Image.id' image'))) = Inr (images_id_seq d + 1)"
    by (simp only: assms(4))
  then show ?thesis
    using assms filter_fresh [of Image.id' "images_id_seq d" "imagesTable d"]
    by (simp add: getImage_def Let_def)
qed

lemma getProject_appended:
  assumes "list_all (\<lambda>p. Project.id' p \<le> projects_id_seq d) (projectsTable d)"
    and "0 \<le> projects_id_seq d" and "projects_id_seq d < 2147483647"
    and "Project.id' project = projects_id_seq d + 1"
    and "projectsTable d' = projectsTable d @ [project]"
  shows "getProject (Finite (of_int (Project.id' project))) d' = Inr (Some project)"
proof -
  have "int4 (Finite (of_int (projects_id_seq d + 1))) = Inr (projects_id_seq d + 1)"
    using assms(2,3) by (intro int4_of_int) simp_all
  then have "int4 (Finite (of_int (Project.id' project))) = Inr (projects_id_seq d + 1)"
    by (simp only: assms(4))
  then show ?thesis
    using assms filter_fresh [of Project.id' "projects_id_seq d" "projectsTable d"]
    by (simp add: getProject_def Let_def)
qed

lemma getOperationResult_appended:
  assumes "list_all (\<lambda>operation. AIOperation.id' operation \<le> ai_operations_id_seq d) (aiOperationsTable d)"
    and "0 \<le> ai_operations_id_seq d" and "ai_operations_id_seq d < 2147483647"
    and "AIOperation.id' operation = ai_operations_id_seq d + 1"
    and "aiOperationsTable d' = aiOperationsTable d @ [operation]"
    and "AIOperation.processing_time operation = None"
  shows "getOperationResult (Finite (of_int (AIOperation.id' operation))) d' = Inr (Some operation)"
proof -
  have "int4 (Finite (of_int (ai_operations_id_seq d + 1))) = Inr (ai_operations_id_seq d + 1)"
    using assms(2,3) by (intro int4_of_int) simp_all
  then have "int4 (Finite (of_int (AIOperation.id' operation))) = Inr (ai_operations_id_seq d + 1)"
    by (simp only: assms(4))
  moreover have "operation\<lparr>AIOperation.processing_time := None\<rparr> = operation"
    using assms(6) by simp
  ultimately show ?thesis
    using assms filter_fresh [of AIOperation.id' "ai_operations_id_seq d" "aiOperationsTable d"]
    by (simp add: getOperationResult_def Let_def truthy_number_def)
qed

section \<open>Statements\<close>

text \<open>
  What an insert that succeeds has stored, and when an insert succeeds.
\<close>

lemma insert_aiOperationsTable_Inr:
  assumes "insert_aiOperationsTable now v d = Inr (row, d')"
  shows "d' = d\<lparr>aiOperationsTable := aiOperationsTable d @ [row],
                ai_operations_id_seq := ai_operations_id_seq d + 1\<rparr>"
    and "AIOperation.id' row = ai_operations_id_seq d + 1"
    and "ai_operations_id_seq d < 2147483647"
    and "AIOperation.image_id row = NewAIOperation.image_id v"
    and "AIOperation.operation_type row = NewAIOperation.operation_type v"
    and "AIOperation.status row = NewAIOperation.status v"
    and "AIOperation.prompt row = map_option toWellFormed (NewAIOperation.prompt v)"
    and "AIOperation.mask_data row = map_option toWellFormed (NewAIOperation.mask_data v)"
    and "AIOperation.parameters row = map_option toWellFormed (NewAIOperation.parameters v)"
    and "AIOperation.result_image_path row = map_option toWellFormed (NewAIOperation.result_image_path v)"
    and "AIOperation.error_message row = map_option toWellFormed (NewAIOperation.error_message v)"
    and "AIOperation.processing_time row = NewAIOperation.processing_time v"
    and "AIOperation.created_at row = now"
    and "AIOperation.updated_at row = now"
    and "stored_opt (AIOperation.prompt row) \<and> stored_opt (AIOperation.mask_data row) \<and>
         stored_opt (AIOperation.parameters row) \<and> stored_opt (AIOperation.result_image_path row) \<and>
         stored_opt (AIOperation.error_message row)"
  using assms
  by (auto simp add: insert_aiOperationsTable_def Let_def nextval_Inr
      split: sum.splits if_splits dest: nullable_text_Inr_eq nullable_text_Inr)

lemma insert_aiOperationsTable_returns:
  assumes "list_all (\<lambda>operation. AIOperation.id' operation \<le> ai_operations_id_seq d) (aiOperationsTable d)"
    and "ai_operations_id_seq d < 2147483647"
    and "image_exists (NewAIOperation.image_id v) d"
    and "case NewAIOperation.prompt v of None \<Rightarrow> True | Some s \<Rightarrow> nul_free s"
    and "case NewAIOperation.mask_data v of None \<Rightarrow> True | Some s \<Rightarrow> nul_free s"
    and "case NewAIOperation.parameters v of None \<Rightarrow> True | Some s \<Rightarrow> nul_free s"
    and "case NewAIOperation.result_image_path v of None \<Rightarrow> True | Some s \<Rightarrow> nul_free s"
    and "case NewAIOperation.error_message v of None \<Rightarrow> True | Some s \<Rightarrow> nul_free s"
  shows "\<exists>row d'. insert_aiOperationsTable now v d = Inr (row, d')"
  using assms fresh_id [OF assms(1)]
  by (simp add: insert_aiOperationsTable_def Let_def nextval_def nullable_text_nul_free
      image_exists_filter)

lemma insert_imagesTable_Inr:
  assumes "insert_imagesTable now v d = Inr (row, d')"
  shows "d' = d\<lparr>imagesTable := imagesTable d @ [row], images_id_seq := images_id_seq d + 1\<rparr>"
    and "Image.id' row = images_id_seq d + 1"
    and "images_id_seq d < 2147483647"
    and "stored (Image.filename row) \<and> stored (Image.original_filename row) \<and>
         stored (Image.file_path row) \<and> stored (Image.mime_type row)"
  using assms
  by (auto simp add: insert_imagesTable_def Let_def nextval_Inr
      split: sum.splits if_splits dest: varchar_Inr text_Inr)

lemma uploadImage_insert:
  "uploadImage now input d = Inr (image', d') \<Longrightarrow> insert_imagesTable now input d = Inr (image', d')"
  by (auto simp add: uploadImage_def split: sum.splits)

lemma uploadImage_fits:
  assumes "list_all (\<lambda>i. Image.id' i \<le> images_id_seq d) (imagesTable d)"
    and "images_id_seq d < 2147483647"
    and "stored (UploadImageInput.filename input)" and "length (UploadImageInput.filename input) \<le> 255"
    and "stored (UploadImageInput.original_filename input)"
    and "length (UploadImageInput.original_filename input) \<le> 255"
    and "stored (UploadImageInput.file_path input)"
    and "stored (UploadImageInput.mime_type input)" and "length (UploadImageInput.mime_type input) \<le> 100"
    and "int4 (UploadImageInput.file_size input) = Inr fs"
    and "int4 (UploadImageInput.width input) = Inr w"
    and "int4 (UploadImageInput.height input) = Inr h"
  shows "uploadImage now input d =
     Inr (\<lparr>Image.id' = images_id_seq d + 1,
           Image.filename = UploadImageInput.filename input,
           Image.original_filename = UploadImageInput.original_filename input,
           Image.file_path = UploadImageInput.file_path input,
           Image.file_size = fs,
           Image.mime_type = UploadImageInput.mime_type input,
           Image.width = w,
           Image.height = h,
           Image.created_at = now,
           Image.updated_at = now\<rparr>,
          d\<lparr>imagesTable := imagesTable d @
                 [\<lparr>Image.id' = images_id_seq d + 1,
                   Image.filename = UploadImageInput.filename input,
                   Image.original_filename = UploadImageInput.original_filename input,
                   Image.file_path = UploadImageInput.file_path input,
                   Image.file_size = fs,
                   Image.mime_type = UploadImageInput.mime_type input,
                   Image.width = w,
                   Image.height = h,
                   Image.created_at = now,
                   Image.updated_at = now\<rparr>],
            images_id_seq := images_id_seq d + 1\<rparr>)"
  using assms fresh_id [of Image.id' "images_id_seq d" "imagesTable d"]
  by (simp add: uploadImage_def insert_imagesTable_def Let_def varchar_stored text_stored nextval_def)

lemma insert_projectsTable_Inr:
  assumes "insert_projectsTable now v d = Inr (row, d')"
  shows "d' = d\<lparr>projectsTable := projectsTable d @ [row], projects_id_seq := projects_id_seq d + 1\<rparr>"
    and "Project.id' row = projects_id_seq d + 1"
    and "projects_id_seq d < 2147483647"
    and "Project.original_image_id row = NewProject.original_image_id v"
    and "Project.current_image_path row = toWellFormed (NewProject.current_image_path v)"
    and "Project.operations_history row = toWellFormed (NewProject.operations_history v)"
    and "Project.is_public row = NewProject.is_public v"
    and "stored (Project.name row) \<and> stored_opt (Project.description row) \<and>
         stored (Project.current_image_path row) \<and> stored (Project.operations_history row)"
  using assms
  by (auto simp add: insert_projectsTable_def Let_def nextval_Inr
      split: sum.splits if_splits dest: varchar_Inr text_Inr nullable_text_Inr)

lemma insert_projectsTable_returns:
  assumes "list_all (\<lambda>p. Project.id' p \<le> projects_id_seq d) (projectsTable d)"
    and "projects_id_seq d < 2147483647"
    and "image_exists (NewProject.original_image_id v) d"
    and "nul_free (NewProject.name v)" and "length (NewProject.name v) \<le> 255"
    and "case NewProject.description v of None \<Rightarrow> True | Some s \<Rightarrow> nul_free s"
    and "nul_free (NewProject.current_image_path v)"
    and "nul_free (NewProject.operations_history v)"
  shows "\<exists>row d'. insert_projectsTable now v d = Inr (row, d')"
  using assms fresh_id [of Project.id' "projects_id_seq d" "projectsTable d"]
  by (simp add: insert_projectsTable_def Let_def varchar_nul_free text_nul_free
      nullable_text_nul_free nextval_def image_exists_filter)

section \<open>Handlers that write\<close>

text \<open>
  For each handler that creates an operation: it throws the error of the database for
  an identifier the column refuses, it throws its own error for an identifier of no
  image, what it returns is the row an insert has stored, and it returns under the
  conditions under which the insert succeeds. The same for \<^verbatim>\<open>createProject\<close>.
\<close>

lemma removeObject_refused:
  "int4 (ObjectRemovalInput.image_id r) = Inl e \<Longrightarrow> removeObject S now r d = Inl e"
  by (simp add: removeObject_def)

lemma removeObject_missing:
  "int4 (ObjectRemovalInput.image_id r) = Inr k \<Longrightarrow> \<not> image_exists k d \<Longrightarrow>
   removeObject S now r d = Inl (Error (''Image with id '' @ toString k @ '' not found''))"
  by (simp add: removeObject_def image_exists_filter Let_def)

lemma removeObject_insert:
  assumes "removeObject S now r d = Inr (operation, d')"
  shows "\<exists>k. int4 (ObjectRemovalInput.image_id r) = Inr k \<and> image_exists k d \<and>
     insert_aiOperationsTable now
       \<lparr>NewAIOperation.image_id = k,
        NewAIOperation.operation_type = object_removal,
        NewAIOperation.status = pending,
        NewAIOperation.prompt = None,
        NewAIOperation.mask_data = Some (ObjectRemovalInput.mask_data r),
        NewAIOperation.parameters = map_option S (ObjectRemovalInput.parameters r),
        NewAIOperation.result_image_path = None,
        NewAIOperation.error_message = None,
        NewAIOperation.processing_time = None\<rparr> d = Inr (operation, d')"
proof -
  from assms obtain k row where k: "int4 (ObjectRemovalInput.image_id r) = Inr k" "image_exists k d"
    and ins: "insert_aiOperationsTable now
       \<lparr>NewAIOperation.image_id = k,
        NewAIOperation.operation_type = object_removal,
        NewAIOperation.status = pending,
        NewAIOperation.prompt = None,
        NewAIOperation.mask_data = Some (ObjectRemovalInput.mask_data r),
        NewAIOperation.parameters = map_option S (ObjectRemovalInput.parameters r),
        NewAIOperation.result_image_path = None,
        NewAIOperation.error_message = None,
        NewAIOperation.processing_time = None\<rparr> d = Inr (row, d')"
    and op: "operation = row\<lparr>AIOperation.processing_time :=
                truthy_number (AIOperation.processing_time row)\<rparr>"
    by (cases "ObjectRemovalInput.parameters r")
      (auto simp add: removeObject_def image_exists_filter Let_def split: sum.splits if_splits)
  from insert_aiOperationsTable_Inr(12) [OF ins] have "AIOperation.processing_time row = None"
    by simp
  with op have "operation = row" by (simp add: truthy_number_def)
  with k ins show ?thesis by blast
qed

lemma removeObject_Inr:
  assumes "removeObject S now r d = Inr (operation, d')"
  shows "d' = d\<lparr>aiOperationsTable := aiOperationsTable d @ [operation],
                ai_operations_id_seq := ai_operations_id_seq d + 1\<rparr>"
    and "AIOperation.id' operation = ai_operations_id_seq d + 1"
    and "ai_operations_id_seq d < 2147483647"
    and "AIOperation.operation_type operation = object_removal"
    and "AIOperation.status operation = pending"
    and "AIOperation.prompt operation = None"
    and "AIOperation.mask_data operation = Some (toWellFormed (ObjectRemovalInput.mask_data r))"
    and "AIOperation.parameters operation =
           map_option (\<lambda>p. toWellFormed (S p)) (ObjectRemovalInput.parameters r)"
    and "AIOperation.result_image_path operation = None"
    and "AIOperation.error_message operation = None"
    and "AIOperation.processing_time operation = None"
    and "stored_opt (AIOperation.prompt operation) \<and> stored_opt (AIOperation.mask_data operation) \<and>
         stored_opt (AIOperation.parameters operation) \<and>
         stored_opt (AIOperation.result_image_path operation) \<and>
         stored_opt (AIOperation.error_message operation)"
proof -
  from removeObject_insert [OF assms] obtain k where
    ins: "insert_aiOperationsTable now
       \<lparr>NewAIOperation.image_id = k,
        NewAIOperation.operation_type = object_removal,
        NewAIOperation.status = pending,
        NewAIOperation.prompt = None,
        NewAIOperation.mask_data = Some (ObjectRemovalInput.mask_data r),
        NewAIOperation.parameters = map_option S (ObjectRemovalInput.parameters r),
        NewAIOperation.result_image_path = None,
        NewAIOperation.error_message = None,
        NewAIOperation.processing_time = None\<rparr> d = Inr (operation, d')"
    by blast
  note f = insert_aiOperationsTable_Inr [OF ins]
  from f(1) show "d' = d\<lparr>aiOperationsTable := aiOperationsTable d @ [operation],
                ai_operations_id_seq := ai_operations_id_seq d + 1\<rparr>" .
  from f(2) show "AIOperation.id' operation = ai_operations_id_seq d + 1" .
  from f(3) show "ai_operations_id_seq d < 2147483647" .
  from f(5) show "AIOperation.operation_type operation = object_removal" by simp
  from f(6) show "AIOperation.status operation = pending" by simp
  from f(7) show "AIOperation.prompt operation = None" by simp
  from f(8) show "AIOperation.mask_data operation = Some (toWellFormed (ObjectRemovalInput.mask_data r))" by simp
  from f(9) show "AIOperation.parameters operation =
           map_option (\<lambda>p. toWellFormed (S p)) (ObjectRemovalInput.parameters r)"
    by (simp add: option.map_comp comp_def)
  from f(10) show "AIOperation.result_image_path operation = None" by simp
  from f(11) show "AIOperation.error_message operation = None" by simp
  from f(12) show "AIOperation.processing_time operation = None" by simp
  from f(15) show "stored_opt (AIOperation.prompt operation) \<and> stored_opt (AIOperation.mask_data operation) \<and>
         stored_opt (AIOperation.parameters operation) \<and>
         stored_opt (AIOperation.result_image_path operation) \<and>
         stored_opt (AIOperation.error_message operation)" .
qed

lemma removeObject_returns:
  assumes "list_all (\<lambda>operation. AIOperation.id' operation \<le> ai_operations_id_seq d) (aiOperationsTable d)"
    and "ai_operations_id_seq d < 2147483647"
    and "int4 (ObjectRemovalInput.image_id r) = Inr k"
    and "image_exists k d"
    and "nul_free (ObjectRemovalInput.mask_data r)"
    and "case ObjectRemovalInput.parameters r of None \<Rightarrow> True | Some p \<Rightarrow> nul_free (S p)"
  shows "\<exists>operation d'. removeObject S now r d = Inr (operation, d')"
proof -
  let ?v = "\<lparr>NewAIOperation.image_id = k,
        NewAIOperation.operation_type = object_removal,
        NewAIOperation.status = pending,
        NewAIOperation.prompt = None,
        NewAIOperation.mask_data = Some (ObjectRemovalInput.mask_data r),
        NewAIOperation.parameters = map_option S (ObjectRemovalInput.parameters r),
        NewAIOperation.result_image_path = None,
        NewAIOperation.error_message = None,
        NewAIOperation.processing_time = None\<rparr>"
  have "\<exists>row d'. insert_aiOperationsTable now ?v d = Inr (row, d')"
    using assms
    by (intro insert_aiOperationsTable_returns)
      (auto simp add: or_null_def split: option.splits if_splits)
  then obtain row d' where ins: "insert_aiOperationsTable now ?v d = Inr (row, d')"
    by blast
  with assms(3,4) show ?thesis
    by (cases "ObjectRemovalInput.parameters r")
      (simp_all add: removeObject_def image_exists_filter Let_def)
qed

lemma applyStyleTransfer_refused:
  "int4 (StyleTransferInput.image_id s) = Inl e \<Longrightarrow> applyStyleTransfer S now s d = Inl e"
  by (simp add: applyStyleTransfer_def)

lemma applyStyleTransfer_missing:
  "int4 (StyleTransferInput.image_id s) = Inr k \<Longrightarrow> \<not> image_exists k d \<Longrightarrow>
   applyStyleTransfer S now s d = Inl (Error (''Image with id '' @ toString k @ '' not found''))"
  by (simp add: applyStyleTransfer_def image_exists_filter Let_def)

lemma applyStyleTransfer_insert:
  assumes "applyStyleTransfer S now s d = Inr (operation, d')"
  shows "\<exists>k. int4 (StyleTransferInput.image_id s) = Inr k \<and> image_exists k d \<and>
     insert_aiOperationsTable now
       \<lparr>NewAIOperation.image_id = k,
        NewAIOperation.operation_type = style_transfer,
        NewAIOperation.status = pending,
        NewAIOperation.prompt = Some (StyleTransferInput.prompt s),
        NewAIOperation.mask_data = None,
        NewAIOperation.parameters = map_option S (StyleTransferInput.parameters s),
        NewAIOperation.result_image_path = None,
        NewAIOperation.error_message = None,
        NewAIOperation.processing_time = None\<rparr> d = Inr (operation, d')"
proof -
  from assms obtain k row where k: "int4 (StyleTransferInput.image_id s) = Inr k" "image_exists k d"
    and ins: "insert_aiOperationsTable now
       \<lparr>NewAIOperation.image_id = k,
        NewAIOperation.operation_type = style_transfer,
        NewAIOperation.status = pending,
        NewAIOperation.prompt = Some (StyleTransferInput.prompt s),
        NewAIOperation.mask_data = None,
        NewAIOperation.parameters = map_option S (StyleTransferInput.parameters s),
        NewAIOperation.result_image_path = None,
        NewAIOperation.error_message = None,
        NewAIOperation.processing_time = None\<rparr> d = Inr (row, d')"
    and op: "operation = row\<lparr>AIOperation.processing_time :=
                truthy_number (AIOperation.processing_time row)\<rparr>"
    by (cases "StyleTransferInput.parameters s")
      (auto simp add: applyStyleTransfer_def image_exists_filter Let_def split: sum.splits if_splits)
  from insert_aiOperationsTable_Inr(12) [OF ins] have "AIOperation.processing_time row = None"
    by simp
  with op have "operation = row" by (simp add: truthy_number_def)
  with k ins show ?thesis by blast
qed

lemma applyStyleTransfer_Inr:
  assumes "applyStyleTransfer S now s d = Inr (operation, d')"
  shows "d' = d\<lparr>aiOperationsTable := aiOperationsTable d @ [operation],
                ai_operations_id_seq := ai_operations_id_seq d + 1\<rparr>"
    and "AIOperation.id' operation = ai_operations_id_seq d + 1"
    and "ai_operations_id_seq d < 2147483647"
    and "AIOperation.operation_type operation = style_transfer"
    and "AIOperation.status operation = pending"
    and "AIOperation.prompt operation = Some (toWellFormed (StyleTransferInput.prompt s))"
    and "AIOperation.mask_data operation = None"
    and "AIOperation.parameters operation =
           map_option (\<lambda>p. toWellFormed (S p)) (StyleTransferInput.parameters s)"
    and "AIOperation.result_image_path operation = None"
    and "AIOperation.error_message operation = None"
    and "AIOperation.processing_time operation = None"
    and "stored_opt (AIOperation.prompt operation) \<and> stored_opt (AIOperation.mask_data operation) \<and>
         stored_opt (AIOperation.parameters operation) \<and>
         stored_opt (AIOperation.result_image_path operation) \<and>
         stored_opt (AIOperation.error_message operation)"
proof -
  from applyStyleTransfer_insert [OF assms] obtain k where
    ins: "insert_aiOperationsTable now
       \<lparr>NewAIOperation.image_id = k,
        NewAIOperation.operation_type = style_transfer,
        NewAIOperation.status = pending,
        NewAIOperation.prompt = Some (StyleTransferInput.prompt s),
        NewAIOperation.mask_data = None,
        NewAIOperation.parameters = map_option S (StyleTransferInput.parameters s),
        NewAIOperation.result_image_path = None,
        NewAIOperation.error_message = None,
        NewAIOperation.processing_time = None\<rparr> d = Inr (operation, d')"
    by blast
  note f = insert_aiOperationsTable_Inr [OF ins]
  from f(1) show "d' = d\<lparr>aiOperationsTable := aiOperationsTable d @ [operation],
                ai_operations_id_seq := ai_operations_id_seq d + 1\<rparr>" .
  from f(2) show "AIOperation.id' operation = ai_operations_id_seq d + 1" .
  from f(3) show "ai_operations_id_seq d < 2147483647" .
  from f(5) show "AIOperation.operation_type operation = style_transfer" by simp
  from f(6) show "AIOperation.status operation = pending" by simp
  from f(7) show "AIOperation.prompt operation = Some (toWellFormed (StyleTransferInput.prompt s))" by simp
  from f(8) show "AIOperation.mask_data operation = None" by simp
  from f(9) show "AIOperation.parameters operation =
           map_option (\<lambda>p. toWellFormed (S p)) (StyleTransferInput.parameters s)"
    by (simp add: option.map_comp comp_def)
  from f(10) show "AIOperation.result_image_path operation = None" by simp
  from f(11) show "AIOperation.error_message operation = None" by simp
  from f(12) show "AIOperation.processing_time operation = None" by simp
  from f(15) show "stored_opt (AIOperation.prompt operation) \<and> stored_opt (AIOperation.mask_data operation) \<and>
         stored_opt (AIOperation.parameters operation) \<and>
         stored_opt (AIOperation.result_image_path operation) \<and>
         stored_opt (AIOperation.error_message operation)" .
qed

lemma applyStyleTransfer_returns:
  assumes "list_all (\<lambda>operation. AIOperation.id' operation \<le> ai_operations_id_seq d) (aiOperationsTable d)"
    and "ai_operations_id_seq d < 2147483647"
    and "int4 (StyleTransferInput.image_id s) = Inr k"
    and "image_exists k d"
    and "nul_free (StyleTransferInput.prompt s)"
    and "case StyleTransferInput.parameters s of None \<Rightarrow> True | Some p \<Rightarrow> nul_free (S p)"
  shows "\<exists>operation d'. applyStyleTransfer S now s d = Inr (operation, d')"
proof -
  let ?v = "\<lparr>NewAIOperation.image_id = k,
        NewAIOperation.operation_type = style_transfer,
        NewAIOperation.status = pending,
        NewAIOperation.prompt = Some (StyleTransferInput.prompt s),
        NewAIOperation.mask_data = None,
        NewAIOperation.parameters = map_option S (StyleTransferInput.parameters s),
        NewAIOperation.result_image_path = None,
        NewAIOperation.error_message = None,
        NewAIOperation.processing_time = None\<rparr>"
  have "\<exists>row d'. insert_aiOperationsTable now ?v d = Inr (row, d')"
    using assms
    by (intro insert_aiOperationsTable_returns)
      (auto simp add: or_null_def split: option.splits if_splits)
  then obtain row d' where ins: "insert_aiOperationsTable now ?v d = Inr (row, d')"
    by blast
  with assms(3,4) show ?thesis
    by (cases "StyleTransferInput.parameters s")
      (simp_all add: applyStyleTransfer_def image_exists_filter Let_def)
qed

lemma modifyImage_refused:
  "int4 (ImageModificationInput.image_id m) = Inl e \<Longrightarrow> modifyImage S now m d = Inl e"
  by (simp add: modifyImage_def)

lemma modifyImage_missing:
  "int4 (ImageModificationInput.image_id m) = Inr k \<Longrightarrow> \<not> image_exists k d \<Longrightarrow>
   modifyImage S now m d = Inl (Error (''Image with id '' @ toString k @ '' not found''))"
  by (simp add: modifyImage_def image_exists_filter Let_def)

lemma modifyImage_insert:
  assumes "modifyImage S now m d = Inr (operation, d')"
  shows "\<exists>k. int4 (ImageModificationInput.image_id m) = Inr k \<and> image_exists k d \<and>
     insert_aiOperationsTable now
       \<lparr>NewAIOperation.image_id = k,
        NewAIOperation.operation_type = image_modification,
        NewAIOperation.status = pending,
        NewAIOperation.prompt = Some (ImageModificationInput.prompt m),
        NewAIOperation.mask_data = or_null (ImageModificationInput.mask_data m),
        NewAIOperation.parameters = map_option S (ImageModificationInput.parameters m),
        NewAIOperation.result_image_path = None,
        NewAIOperation.error_message = None,
        NewAIOperation.processing_time = None\<rparr> d = Inr (operation, d')"
proof -
  from assms obtain k row where k: "int4 (ImageModificationInput.image_id m) = Inr k" "image_exists k d"
    and ins: "insert_aiOperationsTable now
       \<lparr>NewAIOperation.image_id = k,
        NewAIOperation.operation_type = image_modification,
        NewAIOperation.status = pending,
        NewAIOperation.prompt = Some (ImageModificationInput.prompt m),
        NewAIOperation.mask_data = or_null (ImageModificationInput.mask_data m),
        NewAIOperation.parameters = map_option S (ImageModificationInput.parameters m),
        NewAIOperation.result_image_path = None,
        NewAIOperation.error_message = None,
        NewAIOperation.processing_time = None\<rparr> d = Inr (row, d')"
    and op: "operation = row\<lparr>AIOperation.processing_time :=
                truthy_number (AIOperation.processing_time row)\<rparr>"
    by (cases "ImageModificationInput.parameters m")
      (auto simp add: modifyImage_def image_exists_filter Let_def split: sum.splits if_splits)
  from insert_aiOperationsTable_Inr(12) [OF ins] have "AIOperation.processing_time row = None"
    by simp
  with op have "operation = row" by (simp add: truthy_number_def)
  with k ins show ?thesis by blast
qed

lemma modifyImage_Inr:
  assumes "modifyImage S now m d = Inr (operation, d')"
  shows "d' = d\<lparr>aiOperationsTable := aiOperationsTable d @ [operation],
                ai_operations_id_seq := ai_operations_id_seq d + 1\<rparr>"
    and "AIOperation.id' operation = ai_operations_id_seq d + 1"
    and "ai_operations_id_seq d < 2147483647"
    and "AIOperation.operation_type operation = image_modification"
    and "AIOperation.status operation = pending"
    and "AIOperation.prompt operation = Some (toWellFormed (ImageModificationInput.prompt m))"
    and "AIOperation.mask_data operation = map_option toWellFormed (or_null (ImageModificationInput.mask_data m))"
    and "AIOperation.parameters operation =
           map_option (\<lambda>p. toWellFormed (S p)) (ImageModificationInput.parameters m)"
    and "AIOperation.result_image_path operation = None"
    and "AIOperation.error_message operation = None"
    and "AIOperation.processing_time operation = None"
    and "stored_opt (AIOperation.prompt operation) \<and> stored_opt (AIOperation.mask_data operation) \<and>
         stored_opt (AIOperation.parameters operation) \<and>
         stored_opt (AIOperation.result_image_path operation) \<and>
         stored_opt (AIOperation.error_message operation)"
proof -
  from modifyImage_insert [OF assms] obtain k where
    ins: "insert_aiOperationsTable now
       \<lparr>NewAIOperation.image_id = k,
        NewAIOperation.operation_type = image_modification,
        NewAIOperation.status = pending,
        NewAIOperation.prompt = Some (ImageModificationInput.prompt m),
        NewAIOperation.mask_data = or_null (ImageModificationInput.mask_data m),
        NewAIOperation.parameters = map_option S (ImageModificationInput.parameters m),
        NewAIOperation.result_image_path = None,
        NewAIOperation.error_message = None,
        NewAIOperation.processing_time = None\<rparr> d = Inr (operation, d')"
    by blast
  note f = insert_aiOperationsTable_Inr [OF ins]
  from f(1) show "d' = d\<lparr>aiOperationsTable := aiOperationsTable d @ [operation],
                ai_operations_id_seq := ai_operations_id_seq d + 1\<rparr>" .
  from f(2) show "AIOperation.id' operation = ai_operations_id_seq d + 1" .
  from f(3) show "ai_operations_id_seq d < 2147483647" .
  from f(5) show "AIOperation.operation_type operation = image_modification" by simp
  from f(6) show "AIOperation.status operation = pending" by simp
  from f(7) show "AIOperation.prompt operation = Some (toWellFormed (ImageModificationInput.prompt m))" by simp
  from f(8) show "AIOperation.mask_data operation = map_option toWellFormed (or_null (ImageModificationInput.mask_data m))" by simp
  from f(9) show "AIOperation.parameters operation =
           map_option (\<lambda>p. toWellFormed (S p)) (ImageModificationInput.parameters m)"
    by (simp add: option.map_comp comp_def)
  from f(10) show "AIOperation.result_image_path operation = None" by simp
  from f(11) show "AIOperation.error_message operation = None" by simp
  from f(12) show "AIOperation.processing_time operation = None" by simp
  from f(15) show "stored_opt (AIOperation.prompt operation) \<and> stored_opt (AIOperation.mask_data operation) \<and>
         stored_opt (AIOperation.parameters operation) \<and>
         stored_opt (AIOperation.result_image_path operation) \<and>
         stored_opt (AIOperation.error_message operation)" .
qed

lemma modifyImage_returns:
  assumes "list_all (\<lambda>operation. AIOperation.id' operation \<le> ai_operations_id_seq d) (aiOperationsTable d)"
    and "ai_operations_id_seq d < 2147483647"
    and "int4 (ImageModificationInput.image_id m) = Inr k"
    and "image_exists k d"
    and "nul_free (ImageModificationInput.prompt m)"
    and "case ImageModificationInput.mask_data m of None \<Rightarrow> True | Some t \<Rightarrow> nul_free t"
    and "case ImageModificationInput.parameters m of None \<Rightarrow> True | Some p \<Rightarrow> nul_free (S p)"
  shows "\<exists>operation d'. modifyImage S now m d = Inr (operation, d')"
proof -
  let ?v = "\<lparr>NewAIOperation.image_id = k,
        NewAIOperation.operation_type = image_modification,
        NewAIOperation.status = pending,
        NewAIOperation.prompt = Some (ImageModificationInput.prompt m),
        NewAIOperation.mask_data = or_null (ImageModificationInput.mask_data m),
        NewAIOperation.parameters = map_option S (ImageModificationInput.parameters m),
        NewAIOperation.result_image_path = None,
        NewAIOperation.error_message = None,
        NewAIOperation.processing_time = None\<rparr>"
  have "\<exists>row d'. insert_aiOperationsTable now ?v d = Inr (row, d')"
    using assms
    by (intro insert_aiOperationsTable_returns)
      (auto simp add: or_null_def split: option.splits if_splits)
  then obtain row d' where ins: "insert_aiOperationsTable now ?v d = Inr (row, d')"
    by blast
  with assms(3,4) show ?thesis
    by (cases "ImageModificationInput.parameters m")
      (simp_all add: modifyImage_def image_exists_filter Let_def)
qed

lemma removeObject_appended:
  "removeObject S now r d = Inr (operation, d') \<Longrightarrow>
   aiOperationsTable d' = aiOperationsTable d @ [operation]"
  by (drule removeObject_Inr(1)) simp

lemma applyStyleTransfer_appended:
  "applyStyleTransfer S now s d = Inr (operation, d') \<Longrightarrow>
   aiOperationsTable d' = aiOperationsTable d @ [operation]"
  by (drule applyStyleTransfer_Inr(1)) simp

lemma modifyImage_appended:
  "modifyImage S now m d = Inr (operation, d') \<Longrightarrow>
   aiOperationsTable d' = aiOperationsTable d @ [operation]"
  by (drule modifyImage_Inr(1)) simp

lemma createProject_refused:
  "int4 (CreateProjectInput.original_image_id input) = Inl e \<Longrightarrow> createProject now input d = Inl e"
  by (simp add: createProject_def)

lemma createProject_missing:
  "int4 (CreateProjectInput.original_image_id input) = Inr k \<Longrightarrow> \<not> image_exists k d \<Longrightarrow>
   createProject now input d = Inl (Error (''Image with id '' @ toString k @ '' not found''))"
  by (simp add: createProject_def image_exists_filter)

lemma createProject_insert:
  assumes "createProject now input d = Inr (project, d')"
  shows "\<exists>k. int4 (CreateProjectInput.original_image_id input) = Inr k \<and> image_exists k d \<and>
     insert_projectsTable now
       \<lparr>NewProject.name = CreateProjectInput.name input,
        NewProject.description = or_null (CreateProjectInput.description input),
        NewProject.original_image_id = k,
        NewProject.current_image_path =
          Image.file_path (filter (\<lambda>i. Image.id' i = k) (imagesTable d) ! 0),
        NewProject.operations_history = js ''[]'',
        NewProject.is_public = CreateProjectInput.is_public input\<rparr> d = Inr (project, d')"
  using assms
  by (auto simp add: createProject_def Let_def image_exists_filter split: sum.splits if_splits)

lemma stored_empty_history: "stored (js ''[]'')"
  by (rule stored_js) simp

lemma or_null_nul_free:
  "(case x of None \<Rightarrow> True | Some s \<Rightarrow> nul_free s) \<Longrightarrow>
   (case or_null x of None \<Rightarrow> True | Some s \<Rightarrow> nul_free s)"
  by (cases x) (simp_all add: or_null_def)

section \<open>Well-formed stores\<close>

text \<open>
  The empty store is well-formed, and every handler that writes leaves a well-formed store
  well-formed: an insert gives the new row the next value of the sequence, which is
  larger than every identifier of the table, and stores only texts the database keeps.
  The stores of the fixtures are well-formed.
\<close>

lemma wf_db_createDB: "wf_db createDB"
  by (simp add: wf_db_def createDB_def)

lemma wf_db_testDB: "wf_db testDB"
  by (simp add: wf_db_def fixtures stored_js)

lemma wf_db_seededDB: "wf_db seededDB"
  by (simp add: wf_db_def fixtures stored_js stored_opt_def)

lemma append_fresh:
  assumes "distinct (map f xs)" and "list_all (\<lambda>x. f x \<le> (n::int)) xs" and "f r = n + 1"
  shows "distinct (map f (xs @ [r]))" and "list_all (\<lambda>x. f x \<le> n + 1) (xs @ [r])"
proof -
  from assms(2) have le: "\<forall>x\<in>set xs. f x \<le> n" by (simp add: list_all_iff)
  with assms(3) have "f r \<notin> f ` set xs" by force
  with assms(1) show "distinct (map f (xs @ [r]))" by simp
  from le assms(3) show "list_all (\<lambda>x. f x \<le> n + 1) (xs @ [r])"
    by (auto simp add: list_all_iff)
qed

lemma insert_imagesTable_wf:
  assumes "wf_db d" and "insert_imagesTable now v d = Inr (row, d')"
  shows "wf_db d'"
proof -
  note f = insert_imagesTable_Inr [OF assms(2)]
  from assms(1) have "distinct (map Image.id' (imagesTable d))"
    "list_all (\<lambda>i. Image.id' i \<le> images_id_seq d) (imagesTable d)"
    by (simp_all add: wf_db_def)
  from append_fresh [OF this f(2)] assms(1) f(3) f(4) show ?thesis
    by (simp add: f(1) wf_db_def)
qed

lemma insert_aiOperationsTable_wf:
  assumes "wf_db d" and "insert_aiOperationsTable now v d = Inr (row, d')"
  shows "wf_db d'"
proof -
  note f = insert_aiOperationsTable_Inr [OF assms(2)]
  from assms(1) have "distinct (map AIOperation.id' (aiOperationsTable d))"
    "list_all (\<lambda>operation. AIOperation.id' operation \<le> ai_operations_id_seq d) (aiOperationsTable d)"
    by (simp_all add: wf_db_def)
  from append_fresh [OF this f(2)] assms(1) f(3) f(15) show ?thesis
    by (simp add: f(1) wf_db_def)
qed

lemma insert_projectsTable_wf:
  assumes "wf_db d" and "insert_projectsTable now v d = Inr (row, d')"
  shows "wf_db d'"
proof -
  note f = insert_projectsTable_Inr [OF assms(2)]
  from assms(1) have "distinct (map Project.id' (projectsTable d))"
    "list_all (\<lambda>p. Project.id' p \<le> projects_id_seq d) (projectsTable d)"
    by (simp_all add: wf_db_def)
  from append_fresh [OF this f(2)] assms(1) f(3) f(8) show ?thesis
    by (simp add: f(1) wf_db_def)
qed

lemma uploadImage_wf: "wf_db d \<Longrightarrow> uploadImage now input d = Inr (image', d') \<Longrightarrow> wf_db d'"
  by (auto dest: uploadImage_insert insert_imagesTable_wf)

lemma removeObject_wf:
  assumes "wf_db d" and "removeObject S now input d = Inr (operation, d')"
  shows "wf_db d'"
  using removeObject_insert [OF assms(2)] assms(1) by (blast intro: insert_aiOperationsTable_wf)

lemma applyStyleTransfer_wf:
  assumes "wf_db d" and "applyStyleTransfer S now input d = Inr (operation, d')"
  shows "wf_db d'"
  using applyStyleTransfer_insert [OF assms(2)] assms(1) by (blast intro: insert_aiOperationsTable_wf)

lemma modifyImage_wf:
  assumes "wf_db d" and "modifyImage S now input d = Inr (operation, d')"
  shows "wf_db d'"
  using modifyImage_insert [OF assms(2)] assms(1) by (blast intro: insert_aiOperationsTable_wf)

lemma createProject_wf:
  assumes "wf_db d" and "createProject now input d = Inr (project, d')"
  shows "wf_db d'"
  using createProject_insert [OF assms(2)] assms(1) by (blast intro: insert_projectsTable_wf)

lemma testDB_tables:
  "aiOperationsTable testDB = []" "projectsTable testDB = []"
  "ai_operations_id_seq testDB = 0" "projects_id_seq testDB = 0"
  by (simp_all add: testDB_def createDB_def)

lemma image_exists_testDB: "image_exists k testDB \<longleftrightarrow> k = 1"
  by (auto simp add: image_exists_def fixtures)

lemma toString_999999: "toString 999999 = ''999999''"
  by (simp add: toString_eval)

section \<open>Creating operations\<close>

text \<open>
  C1. For each of the three handlers that create an operation (\<^verbatim>\<open>removeObject\<close>,
  \<^verbatim>\<open>applyStyleTransfer\<close>, \<^verbatim>\<open>modifyImage\<close>), every input and every store:
  an \<^verbatim>\<open>image_id\<close> that the \<^verbatim>\<open>integer\<close> column refuses (a fraction, a number outside
  \<open>-2147483648 .. 2147483647\<close>, \<^verbatim>\<open>NaN\<close>, an infinity) makes the handler throw the error of
  the database; an \<^verbatim>\<open>image_id\<close> that is accepted and is the identifier of no stored
  image makes it throw the error whose message is \<^verbatim>\<open>Image with id <image_id> not found\<close>,
  with the decimal text of the identifier; every operation the handler returns has
  the status \<^verbatim>\<open>pending\<close> and \<^verbatim>\<open>null\<close> for \<^verbatim>\<open>result_image_path\<close>, \<^verbatim>\<open>error_message\<close> and
  \<^verbatim>\<open>processing_time\<close>; and the handler returns an operation when the image exists, the
  store is well-formed, the sequence of the table has a value left, and neither the
  texts of the input nor the text of the parameters have the character U+0000.
\<close>

theorem operation_creation_pending_or_not_found:
  "(int4 (ObjectRemovalInput.image_id r) = Inl DatabaseError \<longrightarrow>
      removeObject S1 now r d = Inl DatabaseError) \<and>
   (\<forall>k. int4 (ObjectRemovalInput.image_id r) = Inr k \<and> \<not> image_exists k d \<longrightarrow>
      removeObject S1 now r d = Inl (Error (''Image with id '' @ toString k @ '' not found''))) \<and>
   (\<forall>operation d'. removeObject S1 now r d = Inr (operation, d') \<longrightarrow>
      AIOperation.status operation = pending \<and>
      AIOperation.result_image_path operation = None \<and>
      AIOperation.error_message operation = None \<and>
      AIOperation.processing_time operation = None) \<and>
   (\<forall>k. wf_db d \<and>
        ai_operations_id_seq d < 2147483647 \<and>
        int4 (ObjectRemovalInput.image_id r) = Inr k \<and>
        image_exists k d \<and>
        nul_free (ObjectRemovalInput.mask_data r) \<and>
        (case ObjectRemovalInput.parameters r of None \<Rightarrow> True | Some p \<Rightarrow> nul_free (S1 p)) \<longrightarrow>
      (\<exists>operation d'. removeObject S1 now r d = Inr (operation, d'))) \<and>
   (int4 (StyleTransferInput.image_id s) = Inl DatabaseError \<longrightarrow>
      applyStyleTransfer S2 now s d = Inl DatabaseError) \<and>
   (\<forall>k. int4 (StyleTransferInput.image_id s) = Inr k \<and> \<not> image_exists k d \<longrightarrow>
      applyStyleTransfer S2 now s d = Inl (Error (''Image with id '' @ toString k @ '' not found''))) \<and>
   (\<forall>operation d'. applyStyleTransfer S2 now s d = Inr (operation, d') \<longrightarrow>
      AIOperation.status operation = pending \<and>
      AIOperation.result_image_path operation = None \<and>
      AIOperation.error_message operation = None \<and>
      AIOperation.processing_time operation = None) \<and>
   (\<forall>k. wf_db d \<and>
        ai_operations_id_seq d < 2147483647 \<and>
        int4 (StyleTransferInput.image_id s) = Inr k \<and>
        image_exists k d \<and>
        nul_free (StyleTransferInput.prompt s) \<and>
        (case StyleTransferInput.parameters s of None \<Rightarrow> True | Some p \<Rightarrow> nul_free (S2 p)) \<longrightarrow>
      (\<exists>operation d'. applyStyleTransfer S2 now s d = Inr (operation, d'))) \<and>
   (int4 (ImageModificationInput.image_id m) = Inl DatabaseError \<longrightarrow>
      modifyImage S3 now m d = Inl DatabaseError) \<and>
   (\<forall>k. int4 (ImageModificationInput.image_id m) = Inr k \<and> \<not> image_exists k d \<longrightarrow>
      modifyImage S3 now m d = Inl (Error (''Image with id '' @ toString k @ '' not found''))) \<and>
   (\<forall>operation d'. modifyImage S3 now m d = Inr (operation, d') \<longrightarrow>
      AIOperation.status operation = pending \<and>
      AIOperation.result_image_path operation = None \<and>
      AIOperation.error_message operation = None \<and>
      AIOperation.processing_time operation = None) \<and>
   (\<forall>k. wf_db d \<and>
        ai_operations_id_seq d < 2147483647 \<and>
        int4 (ImageModificationInput.image_id m) = Inr k \<and>
        image_exists k d \<and>
        nul_free (ImageModificationInput.prompt m) \<and>
        (case ImageModificationInput.mask_data m of None \<Rightarrow> True | Some t \<Rightarrow> nul_free t) \<and>
        (case ImageModificationInput.parameters m of None \<Rightarrow> True | Some p \<Rightarrow> nul_free (S3 p)) \<longrightarrow>
      (\<exists>operation d'. modifyImage S3 now m d = Inr (operation, d')))"
proof -
  have wf: "wf_db d \<Longrightarrow>
      list_all (\<lambda>operation. AIOperation.id' operation \<le> ai_operations_id_seq d) (aiOperationsTable d)"
    by (simp add: wf_db_def)
  show ?thesis
    by (intro conjI allI impI)
      (auto simp add: removeObject_refused removeObject_missing removeObject_Inr
        applyStyleTransfer_refused applyStyleTransfer_missing applyStyleTransfer_Inr
        modifyImage_refused modifyImage_missing modifyImage_Inr
        intro: removeObject_returns applyStyleTransfer_returns modifyImage_returns wf)
qed

theorem operation_creation_pending_or_not_found_witness:
  "removeObject (\<lambda>p::unit. js ''{}'') 2000
      \<lparr>ObjectRemovalInput.image_id = Finite 2147483648,
       ObjectRemovalInput.mask_data = js ''mask'',
       ObjectRemovalInput.parameters = None\<rparr> testDB = Inl DatabaseError \<and>
   applyStyleTransfer (\<lambda>p::unit. js ''{}'') 2000
      \<lparr>StyleTransferInput.image_id = Finite 999999,
       StyleTransferInput.prompt = js ''watercolor painting style'',
       StyleTransferInput.parameters = None\<rparr> testDB =
     Inl (Error ''Image with id 999999 not found'') \<and>
   (\<exists>operation d'.
      modifyImage (\<lambda>p::unit. js ''{}'') 2000
        \<lparr>ImageModificationInput.image_id = Finite 1,
         ImageModificationInput.prompt = js ''make the sky blue'',
         ImageModificationInput.mask_data = None,
         ImageModificationInput.parameters = Some ()\<rparr> testDB = Inr (operation, d') \<and>
      AIOperation.status operation = pending \<and>
      AIOperation.result_image_path operation = None \<and>
      AIOperation.error_message operation = None \<and>
      AIOperation.processing_time operation = None)"
  using operation_creation_pending_or_not_found
    [where ?S1.0 = "\<lambda>p::unit. js ''{}''" and ?S2.0 = "\<lambda>p::unit. js ''{}''"
       and ?S3.0 = "\<lambda>p::unit. js ''{}''" and now = 2000 and d = testDB
       and r = "\<lparr>ObjectRemovalInput.image_id = Finite 2147483648,
                  ObjectRemovalInput.mask_data = js ''mask'',
                  ObjectRemovalInput.parameters = None\<rparr>"
       and s = "\<lparr>StyleTransferInput.image_id = Finite 999999,
                  StyleTransferInput.prompt = js ''watercolor painting style'',
                  StyleTransferInput.parameters = None\<rparr>"
       and m = "\<lparr>ImageModificationInput.image_id = Finite 1,
                  ImageModificationInput.prompt = js ''make the sky blue'',
                  ImageModificationInput.mask_data = None,
                  ImageModificationInput.parameters = Some ()\<rparr>"]
  by (simp add: image_exists_testDB toString_999999 wf_db_testDB nul_free_js)
    (auto simp add: testDB_def createDB_def)

text \<open>
  Without the condition on the texts the handler need not return when the image
  exists: image 1 is stored, and \<^verbatim>\<open>applyStyleTransfer\<close> for it with a prompt that is the one
  character U+0000 throws the error of the database, as the insert refuses the text.
\<close>

theorem existing_image_operation_refused:
  "image_exists 1 testDB \<and>
   applyStyleTransfer (\<lambda>p::unit. js ''{}'') 2000
      \<lparr>StyleTransferInput.image_id = Finite 1,
       StyleTransferInput.prompt = [Scalar 0],
       StyleTransferInput.parameters = None\<rparr> testDB = Inl DatabaseError"
  by (simp add: image_exists_def applyStyleTransfer_def Let_def testDB_def createDB_def testImage_def
      insert_aiOperationsTable_def nullable_def text'_def)

section \<open>The payload of an operation\<close>

text \<open>
  C10. Every operation \<^verbatim>\<open>applyStyleTransfer\<close> returns is the row it has appended to the
  table and has \<^verbatim>\<open>mask_data\<close> \<^verbatim>\<open>null\<close>, whatever the input is; every operation
  \<^verbatim>\<open>removeObject\<close> returns is the row it has appended and has \<^verbatim>\<open>prompt\<close> \<^verbatim>\<open>null\<close>. Each of
  the two returns an operation when the image exists, the store is well-formed, the
  sequence of the table has a value left, and neither the text of the input nor the
  text of the parameters have the character U+0000.
\<close>

theorem unused_payload_is_null:
  "(\<forall>operation d'. applyStyleTransfer S2 now s d = Inr (operation, d') \<longrightarrow>
       AIOperation.mask_data operation = None \<and>
       aiOperationsTable d' = aiOperationsTable d @ [operation]) \<and>
   (\<forall>k. wf_db d \<and>
         ai_operations_id_seq d < 2147483647 \<and>
         int4 (StyleTransferInput.image_id s) = Inr k \<and>
         image_exists k d \<and>
         nul_free (StyleTransferInput.prompt s) \<and>
         (case StyleTransferInput.parameters s of None \<Rightarrow> True | Some p \<Rightarrow> nul_free (S2 p)) \<longrightarrow>
       (\<exists>operation d'. applyStyleTransfer S2 now s d = Inr (operation, d'))) \<and>
   (\<forall>operation d'. removeObject S1 now r d = Inr (operation, d') \<longrightarrow>
       AIOperation.prompt operation = None \<and>
       aiOperationsTable d' = aiOperationsTable d @ [operation]) \<and>
   (\<forall>k. wf_db d \<and>
         ai_operations_id_seq d < 2147483647 \<and>
         int4 (ObjectRemovalInput.image_id r) = Inr k \<and>
         image_exists k d \<and>
         nul_free (ObjectRemovalInput.mask_data r) \<and>
         (case ObjectRemovalInput.parameters r of None \<Rightarrow> True | Some p \<Rightarrow> nul_free (S1 p)) \<longrightarrow>
       (\<exists>operation d'. removeObject S1 now r d = Inr (operation, d')))"
proof -
  have wf: "wf_db d \<Longrightarrow>
      list_all (\<lambda>operation. AIOperation.id' operation \<le> ai_operations_id_seq d) (aiOperationsTable d)"
    by (simp add: wf_db_def)
  show ?thesis
    by (intro conjI allI impI)
      (auto simp add: removeObject_Inr applyStyleTransfer_Inr
        removeObject_appended applyStyleTransfer_appended
        intro: removeObject_returns applyStyleTransfer_returns wf)
qed

theorem unused_payload_is_null_witness:
  "(\<exists>operation d'.
      applyStyleTransfer (\<lambda>p::unit. js ''{}'') 2000
        \<lparr>StyleTransferInput.image_id = Finite 1,
         StyleTransferInput.prompt = js ''watercolor painting style'',
         StyleTransferInput.parameters = None\<rparr> testDB = Inr (operation, d') \<and>
      AIOperation.mask_data operation = None \<and>
      aiOperationsTable d' = [operation]) \<and>
   (\<exists>operation d'.
      removeObject (\<lambda>p::unit. js ''{}'') 2000
        \<lparr>ObjectRemovalInput.image_id = Finite 1,
         ObjectRemovalInput.mask_data = js ''mask'',
         ObjectRemovalInput.parameters = None\<rparr> testDB = Inr (operation, d') \<and>
      AIOperation.prompt operation = None \<and>
      aiOperationsTable d' = [operation])"
  using unused_payload_is_null
    [where ?S1.0 = "\<lambda>p::unit. js ''{}''" and ?S2.0 = "\<lambda>p::unit. js ''{}''"
       and now = 2000 and d = testDB
       and r = "\<lparr>ObjectRemovalInput.image_id = Finite 1,
                  ObjectRemovalInput.mask_data = js ''mask'',
                  ObjectRemovalInput.parameters = None\<rparr>"
       and s = "\<lparr>StyleTransferInput.image_id = Finite 1,
                  StyleTransferInput.prompt = js ''watercolor painting style'',
                  StyleTransferInput.parameters = None\<rparr>"]
  by (simp add: image_exists_testDB wf_db_testDB nul_free_js testDB_tables) blast

section \<open>The parameters of an operation\<close>

text \<open>
  The parameters of a returned operation are \<^verbatim>\<open>null\<close> exactly when the input has no
  parameter bag; otherwise they are the text \<^verbatim>\<open>JSON.stringify\<close> gives for the bag, as the
  database stores it; and \<^verbatim>\<open>getOperationResult\<close> reads the returned operation back
  unchanged. What \<^verbatim>\<open>JSON.parse\<close> makes of that text is not a matter of the handlers: no
  handler calls it.
\<close>

lemma removeObject_parameters:
  assumes "wf_db d" and "removeObject S now r d = Inr (operation, d')"
  shows "AIOperation.parameters operation =
           map_option (\<lambda>p. toWellFormed (S p)) (ObjectRemovalInput.parameters r)"
    and "ObjectRemovalInput.parameters r = None \<longleftrightarrow> AIOperation.parameters operation = None"
    and "getOperationResult (Finite (of_int (AIOperation.id' operation))) d' = Inr (Some operation)"
proof -
  note f = removeObject_Inr [OF assms(2)]
  from assms(1) have ids:
    "list_all (\<lambda>operation. AIOperation.id' operation \<le> ai_operations_id_seq d) (aiOperationsTable d)"
    and seq: "0 \<le> ai_operations_id_seq d"
    by (simp_all add: wf_db_def)
  show "AIOperation.parameters operation =
           map_option (\<lambda>p. toWellFormed (S p)) (ObjectRemovalInput.parameters r)"
    by (rule f)
  then show "ObjectRemovalInput.parameters r = None \<longleftrightarrow> AIOperation.parameters operation = None"
    by simp
  from f(1) have "aiOperationsTable d' = aiOperationsTable d @ [operation]"
    by simp
  from getOperationResult_appended [OF ids seq f(3) f(2) this f(11)]
  show "getOperationResult (Finite (of_int (AIOperation.id' operation))) d' = Inr (Some operation)" .
qed

lemma applyStyleTransfer_parameters:
  assumes "wf_db d" and "applyStyleTransfer S now s d = Inr (operation, d')"
  shows "AIOperation.parameters operation =
           map_option (\<lambda>p. toWellFormed (S p)) (StyleTransferInput.parameters s)"
    and "StyleTransferInput.parameters s = None \<longleftrightarrow> AIOperation.parameters operation = None"
    and "getOperationResult (Finite (of_int (AIOperation.id' operation))) d' = Inr (Some operation)"
proof -
  note f = applyStyleTransfer_Inr [OF assms(2)]
  from assms(1) have ids:
    "list_all (\<lambda>operation. AIOperation.id' operation \<le> ai_operations_id_seq d) (aiOperationsTable d)"
    and seq: "0 \<le> ai_operations_id_seq d"
    by (simp_all add: wf_db_def)
  show "AIOperation.parameters operation =
           map_option (\<lambda>p. toWellFormed (S p)) (StyleTransferInput.parameters s)"
    by (rule f)
  then show "StyleTransferInput.parameters s = None \<longleftrightarrow> AIOperation.parameters operation = None"
    by simp
  from f(1) have "aiOperationsTable d' = aiOperationsTable d @ [operation]"
    by simp
  from getOperationResult_appended [OF ids seq f(3) f(2) this f(11)]
  show "getOperationResult (Finite (of_int (AIOperation.id' operation))) d' = Inr (Some operation)" .
qed

lemma modifyImage_parameters:
  assumes "wf_db d" and "modifyImage S now m d = Inr (operation, d')"
  shows "AIOperation.parameters operation =
           map_option (\<lambda>p. toWellFormed (S p)) (ImageModificationInput.parameters m)"
    and "ImageModificationInput.parameters m = None \<longleftrightarrow> AIOperation.parameters operation = None"
    and "getOperationResult (Finite (of_int (AIOperation.id' operation))) d' = Inr (Some operation)"
proof -
  note f = modifyImage_Inr [OF assms(2)]
  from assms(1) have ids:
    "list_all (\<lambda>operation. AIOperation.id' operation \<le> ai_operations_id_seq d) (aiOperationsTable d)"
    and seq: "0 \<le> ai_operations_id_seq d"
    by (simp_all add: wf_db_def)
  show "AIOperation.parameters operation =
           map_option (\<lambda>p. toWellFormed (S p)) (ImageModificationInput.parameters m)"
    by (rule f)
  then show "ImageModificationInput.parameters m = None \<longleftrightarrow> AIOperation.parameters operation = None"
    by simp
  from f(1) have "aiOperationsTable d' = aiOperationsTable d @ [operation]"
    by simp
  from getOperationResult_appended [OF ids seq f(3) f(2) this f(11)]
  show "getOperationResult (Finite (of_int (AIOperation.id' operation))) d' = Inr (Some operation)" .
qed

section \<open>Reading by identifier\<close>

text \<open>
  C3. For every identifier that the \<^verbatim>\<open>integer\<close> column accepts and that no stored row
  has, \<^verbatim>\<open>getImage\<close>, \<^verbatim>\<open>getProject\<close> and \<^verbatim>\<open>getOperationResult\<close> return \<^verbatim>\<open>null\<close>; for an
  identifier that the column refuses, each of the three throws the error of the
  database.
\<close>

theorem get_of_missing_id_is_null:
  "(\<forall>k. int4 x = Inr k \<and> (\<forall>i\<in>set (imagesTable d). Image.id' i \<noteq> k) \<longrightarrow> getImage x d = Inr None) \<and>
   (\<forall>k. int4 x = Inr k \<and> (\<forall>p\<in>set (projectsTable d). Project.id' p \<noteq> k) \<longrightarrow> getProject x d = Inr None) \<and>
   (\<forall>k. int4 x = Inr k \<and> (\<forall>operation\<in>set (aiOperationsTable d). AIOperation.id' operation \<noteq> k) \<longrightarrow>
      getOperationResult x d = Inr None) \<and>
   (int4 x = Inl DatabaseError \<longrightarrow>
      getImage x d = Inl DatabaseError \<and> getProject x d = Inl DatabaseError \<and>
      getOperationResult x d = Inl DatabaseError)"
  by (auto simp add: getImage_def getProject_def getOperationResult_def filter_empty_conv Let_def)

theorem get_of_missing_id_is_null_witness:
  "getImage (Finite 999) seededDB = Inr None \<and>
   getProject (Finite 999) seededDB = Inr None \<and>
   getOperationResult (Finite 999) seededDB = Inr None \<and>
   getImage (Finite 1) seededDB = Inr (Some testImage) \<and>
   getProject (Finite 1) seededDB = Inr (Some (testProject 1 True)) \<and>
   getOperationResult (Finite 1) seededDB = Inr (Some (testOperation 1 1 1000)) \<and>
   getImage (Finite 2147483648) seededDB = Inl DatabaseError \<and>
   getProject (Finite 2147483648) seededDB = Inl DatabaseError \<and>
   getOperationResult (Finite 2147483648) seededDB = Inl DatabaseError"
  using get_of_missing_id_is_null [of "Finite 999" seededDB]
    get_of_missing_id_is_null [of "Finite 2147483648" seededDB]
  by (simp add: fixtures)
    (simp add: getImage_def getProject_def getOperationResult_def fixtures truthy_number_def)

text \<open>
  For every identifier that matches no stored row the three do not return \<^verbatim>\<open>null\<close>: in
  the seeded store the only image has the identifier 1, the projects have 1 to 6 and
  the operations 1 to 3; \<^verbatim>\<open>getImage(2147483648)\<close>, \<^verbatim>\<open>getProject(0.5)\<close> and
  \<^verbatim>\<open>getOperationResult(-2147483649)\<close> match no row, and each throws the error of the
  database.
\<close>

theorem get_of_unmatched_id_raises:
  "map Image.id' (imagesTable seededDB) = [1] \<and>
   getImage (Finite 2147483648) seededDB = Inl DatabaseError \<and>
   map Project.id' (projectsTable seededDB) = [1, 2, 3, 4, 5, 6] \<and>
   getProject (Finite (1 / 2)) seededDB = Inl DatabaseError \<and>
   map AIOperation.id' (aiOperationsTable seededDB) = [1, 2, 3] \<and>
   getOperationResult (Finite (- 2147483649)) seededDB = Inl DatabaseError"
  by (simp add: getImage_def getProject_def getOperationResult_def fixtures int4_def)

section \<open>Listing operations\<close>

lemma processing_time_unchanged:
  "operation\<lparr>AIOperation.processing_time :=
      (case AIOperation.processing_time operation of
         Some t \<Rightarrow> Some (parseFloat_toString t) | None \<Rightarrow> None)\<rparr> = operation"
  by (cases "AIOperation.processing_time operation") (simp_all add: parseFloat_toString_def)

lemma listOperations_None: "listOperations None d = Inr (orderBy_desc_created_at (aiOperationsTable d))"
  by (simp add: listOperations_def Let_def processing_time_unchanged)

lemma listOperations_Some:
  "int4 x = Inr i \<Longrightarrow>
   listOperations (Some x) d =
     Inr (orderBy_desc_created_at
            (filter (\<lambda>operation. AIOperation.image_id operation = i) (aiOperationsTable d)))"
  by (simp add: listOperations_def Let_def processing_time_unchanged)

lemma listOperations_refused: "int4 x = Inl e \<Longrightarrow> listOperations (Some x) d = Inl e"
  by (simp add: listOperations_def)

lemma orderBy_desc_created_at_sorted:
  "sorted_wrt (\<lambda>a b. AIOperation.created_at b \<le> AIOperation.created_at a) (orderBy_desc_created_at rows)"
proof -
  have "sorted (map (\<lambda>r. - AIOperation.created_at r) (sort_key (\<lambda>r. - AIOperation.created_at r) rows))"
    by (rule sorted_sort_key)
  then show ?thesis
    by (simp add: orderBy_desc_created_at_def sorted_map)
qed

text \<open>
  C7. For every store: \<^verbatim>\<open>listOperations\<close> without an image identifier returns all rows
  of the table, and with an image identifier that the \<^verbatim>\<open>integer\<close> column accepts it
  returns the rows of that image and no other row; in both cases each row as often as
  the table has it, none left out by a page, ordered by falling \<^verbatim>\<open>created_at\<close>. With an
  image identifier that the column refuses, it throws the error of the database.
\<close>

theorem listOperations_newest_first:
  "(\<exists>rows. listOperations None d = Inr rows \<and>
      mset rows = mset (aiOperationsTable d) \<and>
      sorted_wrt (\<lambda>a b. AIOperation.created_at b \<le> AIOperation.created_at a) rows) \<and>
   (\<forall>i. int4 x = Inr i \<longrightarrow>
      (\<exists>rows. listOperations (Some x) d = Inr rows \<and>
         mset rows =
           mset (filter (\<lambda>operation. AIOperation.image_id operation = i) (aiOperationsTable d)) \<and>
         sorted_wrt (\<lambda>a b. AIOperation.created_at b \<le> AIOperation.created_at a) rows \<and>
         (\<forall>operation\<in>set rows. AIOperation.image_id operation = i))) \<and>
   (int4 x = Inl DatabaseError \<longrightarrow> listOperations (Some x) d = Inl DatabaseError)"
  by (simp add: listOperations_None listOperations_Some listOperations_refused
      orderBy_desc_created_at_sorted)
    (simp add: orderBy_desc_created_at_def)

theorem listOperations_newest_first_witness:
  "listOperations None seededDB =
     Inr [testOperation 2 1 3000, testOperation 3 1 2000, testOperation 1 1 1000] \<and>
   listOperations (Some (Finite 1)) seededDB =
     Inr [testOperation 2 1 3000, testOperation 3 1 2000, testOperation 1 1 1000] \<and>
   listOperations (Some (Finite 2)) seededDB = Inr [] \<and>
   listOperations (Some (Finite 2147483648)) seededDB = Inl DatabaseError"
  using listOperations_newest_first [of seededDB "Finite 1"]
    listOperations_newest_first [of seededDB "Finite 2147483648"]
  by (simp add: listOperations_None listOperations_Some listOperations_refused
      orderBy_desc_created_at_def fixtures)

text \<open>
  For every image identifier \<^verbatim>\<open>listOperations\<close> does not return the matching rows: for
  2147483648 and for 0.5, which are the image of no operation, it throws the error of
  the database.
\<close>

theorem listOperations_unmatched_id_raises:
  "listOperations (Some (Finite 2147483648)) seededDB = Inl DatabaseError \<and>
   listOperations (Some (Finite (1 / 2))) seededDB = Inl DatabaseError"
  by (simp add: listOperations_def int4_def)

section \<open>Uploading an image\<close>

text \<open>
  C5. For every input that the upload schema accepts and whose values the columns of
  the table \<^verbatim>\<open>images\<close> store as they are (the four texts have neither the character
  U+0000 nor an unpaired surrogate, \<^verbatim>\<open>filename\<close> and \<^verbatim>\<open>original_filename\<close> have at most 255
  characters and \<^verbatim>\<open>mime_type\<close> at most 100, and \<^verbatim>\<open>file_size\<close>, \<^verbatim>\<open>width\<close> and \<^verbatim>\<open>height\<close> are
  integers of at most 2147483647), in a well-formed store whose sequence has a value
  left: \<^verbatim>\<open>uploadImage\<close> returns an image, \<^verbatim>\<open>getImage\<close> on its identifier returns that
  same image, its seven fields are the uploaded values, its identifier is the next
  value of the sequence, and its two timestamps are the time of the insert.
\<close>

theorem upload_then_get_round_trip:
  assumes "wf_db d" and "images_id_seq d < 2147483647"
    and "uploadImageInputSchema input"
    and "stored (UploadImageInput.filename input)" and "length (UploadImageInput.filename input) \<le> 255"
    and "stored (UploadImageInput.original_filename input)"
    and "length (UploadImageInput.original_filename input) \<le> 255"
    and "stored (UploadImageInput.file_path input)"
    and "stored (UploadImageInput.mime_type input)" and "length (UploadImageInput.mime_type input) \<le> 100"
    and "int4 (UploadImageInput.file_size input) = Inr fs"
    and "int4 (UploadImageInput.width input) = Inr w"
    and "int4 (UploadImageInput.height input) = Inr h"
  shows "\<exists>image' d'. uploadImage now input d = Inr (image', d') \<and>
     getImage (Finite (of_int (Image.id' image'))) d' = Inr (Some image') \<and>
     Image.id' image' = images_id_seq d + 1 \<and>
     Image.filename image' = UploadImageInput.filename input \<and>
     Image.original_filename image' = UploadImageInput.original_filename input \<and>
     Image.file_path image' = UploadImageInput.file_path input \<and>
     Finite (of_int (Image.file_size image')) = UploadImageInput.file_size input \<and>
     Image.mime_type image' = UploadImageInput.mime_type input \<and>
     Finite (of_int (Image.width image')) = UploadImageInput.width input \<and>
     Finite (of_int (Image.height image')) = UploadImageInput.height input \<and>
     Image.created_at image' = now \<and>
     Image.updated_at image' = now"
proof -
  from assms(1) have ids: "list_all (\<lambda>i. Image.id' i \<le> images_id_seq d) (imagesTable d)"
    and seq: "0 \<le> images_id_seq d"
    by (simp_all add: wf_db_def)
  note up = uploadImage_fits [OF ids assms(2) assms(4-13), of now]
  let ?image = "\<lparr>Image.id' = images_id_seq d + 1,
           Image.filename = UploadImageInput.filename input,
           Image.original_filename = UploadImageInput.original_filename input,
           Image.file_path = UploadImageInput.file_path input,
           Image.file_size = fs,
           Image.mime_type = UploadImageInput.mime_type input,
           Image.width = w,
           Image.height = h,
           Image.created_at = now,
           Image.updated_at = now\<rparr>"
  let ?d = "d\<lparr>imagesTable := imagesTable d @ [?image], images_id_seq := images_id_seq d + 1\<rparr>"
  have "getImage (Finite (of_int (Image.id' ?image))) ?d = Inr (Some ?image)"
    by (rule getImage_appended [OF ids seq assms(2)]) simp_all
  moreover have "Finite (of_int fs) = UploadImageInput.file_size input"
    "Finite (of_int w) = UploadImageInput.width input"
    "Finite (of_int h) = UploadImageInput.height input"
    using assms(11-13) by (simp_all add: int4_Inr_iff)
  ultimately show ?thesis
    using up by simp
qed

theorem upload_then_get_round_trip_witness:
  "uploadImageInputSchema testImageInput \<and>
   uploadImage 1000 testImageInput createDB = Inr (testImage, testDB) \<and>
   getImage (Finite 1) testDB = Inr (Some testImage)"
  using upload_then_get_round_trip [of createDB testImageInput 1024000 1920 1080 1000]
  by (simp add: wf_db_createDB)
    (auto simp add: uploadImageInputSchema_def isInteger_def positive_def fixtures stored_js length_js
      uploadImage_def insert_imagesTable_def varchar_stored text_stored nextval_def getImage_def
      Let_def)

text \<open>
  The claim as it was stated, for every input the upload schema accepts, fails: the
  schema puts no bound on the length of a string, and the column \<^verbatim>\<open>filename\<close> is a
  \<^verbatim>\<open>varchar(255)\<close>. For the image of the test suite with a file name of 256 letters \<^verbatim>\<open>a\<close>
  the schema accepts the input and \<^verbatim>\<open>uploadImage\<close> throws the error of the insert.
\<close>

theorem upload_schema_input_refused:
  "uploadImageInputSchema (testImageInput\<lparr>UploadImageInput.filename := replicate 256 (Scalar 97)\<rparr>) \<and>
   uploadImage 1000 (testImageInput\<lparr>UploadImageInput.filename := replicate 256 (Scalar 97)\<rparr>) createDB =
     Inl DatabaseError"
  by (simp add: uploadImageInputSchema_def isInteger_def positive_def testImageInput_def uploadImage_def
      insert_imagesTable_def varchar_def text'_def toWellFormed_def list_ex_iff list_all_iff)

text \<open>
  The other conditions are needed as well: the schema accepts a path with the character
  U+0000 and a size of 1024.5 bytes, and the insert refuses both.
\<close>

lemma uploadImage_refuses_nul:
  "uploadImageInputSchema (testImageInput\<lparr>UploadImageInput.file_path := [Scalar 47, Scalar 0]\<rparr>) \<and>
   uploadImage 1000 (testImageInput\<lparr>UploadImageInput.file_path := [Scalar 47, Scalar 0]\<rparr>) createDB =
     Inl DatabaseError"
  by (simp add: uploadImageInputSchema_def isInteger_def positive_def testImageInput_def uploadImage_def
      insert_imagesTable_def varchar_stored stored_js length_js text'_def)

lemma uploadImage_refuses_fraction:
  "uploadImageInputSchema (testImageInput\<lparr>UploadImageInput.file_size := Finite (2049 / 2)\<rparr>) \<and>
   uploadImage 1000 (testImageInput\<lparr>UploadImageInput.file_size := Finite (2049 / 2)\<rparr>) createDB =
     Inl DatabaseError"
  by (simp add: uploadImageInputSchema_def isInteger_def positive_def testImageInput_def uploadImage_def
      insert_imagesTable_def varchar_stored stored_js length_js text_stored int4_def)

section \<open>Creating a project\<close>

text \<open>
  C2. In a well-formed store, for every input whose \<^verbatim>\<open>original_image_id\<close> the \<^verbatim>\<open>integer\<close>
  column accepts as the identifier of a stored image: every project \<^verbatim>\<open>createProject\<close>
  returns has the \<^verbatim>\<open>file_path\<close> of that image as its \<^verbatim>\<open>current_image_path\<close> and the text
  \<^verbatim>\<open>[]\<close> as its \<^verbatim>\<open>operations_history\<close>, references that image, is the row appended to
  the table, and is what \<^verbatim>\<open>getProject\<close> on its identifier returns. \<^verbatim>\<open>createProject\<close>
  returns a project when the name has at most 255 characters, neither the name nor
  the description has the character U+0000, and the sequence of the table has a value
  left.
\<close>

theorem createProject_initial_values:
  assumes "wf_db d" and "img \<in> set (imagesTable d)"
    and "int4 (CreateProjectInput.original_image_id input) = Inr (Image.id' img)"
  shows "(\<forall>project d'. createProject now input d = Inr (project, d') \<longrightarrow>
       Project.current_image_path project = Image.file_path img \<and>
       Project.operations_history project = js ''[]'' \<and>
       Project.original_image_id project = Image.id' img \<and>
       projectsTable d' = projectsTable d @ [project] \<and>
       getProject (Finite (of_int (Project.id' project))) d' = Inr (Some project)) \<and>
     (nul_free (CreateProjectInput.name input) \<and> length (CreateProjectInput.name input) \<le> 255 \<and>
      (case CreateProjectInput.description input of None \<Rightarrow> True | Some s \<Rightarrow> nul_free s) \<and>
      projects_id_seq d < 2147483647 \<longrightarrow>
        (\<exists>project d'. createProject now input d = Inr (project, d')))"
proof -
  from assms(1) have ids: "list_all (\<lambda>p. Project.id' p \<le> projects_id_seq d) (projectsTable d)"
    and seq: "0 \<le> projects_id_seq d"
    and dist: "distinct (map Image.id' (imagesTable d))"
    and texts: "list_all (\<lambda>i. stored (Image.filename i) \<and> stored (Image.original_filename i) \<and>
                   stored (Image.file_path i) \<and> stored (Image.mime_type i)) (imagesTable d)"
    by (simp_all add: wf_db_def)
  have found: "filter (\<lambda>i. Image.id' i = Image.id' img) (imagesTable d) = [img]"
    by (rule filter_unique [OF dist assms(2)])
  from texts assms(2) have path: "stored (Image.file_path img)"
    by (simp add: list_all_iff)
  have ex: "image_exists (Image.id' img) d"
    by (simp add: image_exists_filter found)
  have created: "Project.current_image_path project = Image.file_path img \<and>
       Project.operations_history project = js ''[]'' \<and>
       Project.original_image_id project = Image.id' img \<and>
       projectsTable d' = projectsTable d @ [project] \<and>
       getProject (Finite (of_int (Project.id' project))) d' = Inr (Some project)"
    if c: "createProject now input d = Inr (project, d')" for project d'
  proof -
    from createProject_insert [OF c] assms(3) found
    have ins: "insert_projectsTable now
       \<lparr>NewProject.name = CreateProjectInput.name input,
        NewProject.description = or_null (CreateProjectInput.description input),
        NewProject.original_image_id = Image.id' img,
        NewProject.current_image_path = Image.file_path img,
        NewProject.operations_history = js ''[]'',
        NewProject.is_public = CreateProjectInput.is_public input\<rparr> d = Inr (project, d')"
      by auto
    note f = insert_projectsTable_Inr [OF ins]
    from f(1) have app: "projectsTable d' = projectsTable d @ [project]" by simp
    have "getProject (Finite (of_int (Project.id' project))) d' = Inr (Some project)"
      by (rule getProject_appended [OF ids seq f(3) f(2) app])
    with f app show ?thesis
      by (simp add: toWellFormed_stored path stored_empty_history)
  qed
  have returns: "\<exists>project d'. createProject now input d = Inr (project, d')"
    if h: "nul_free (CreateProjectInput.name input)" "length (CreateProjectInput.name input) \<le> 255"
      "case CreateProjectInput.description input of None \<Rightarrow> True | Some s \<Rightarrow> nul_free s"
      "projects_id_seq d < 2147483647"
  proof -
    have "\<exists>row d'. insert_projectsTable now
       \<lparr>NewProject.name = CreateProjectInput.name input,
        NewProject.description = or_null (CreateProjectInput.description input),
        NewProject.original_image_id = Image.id' img,
        NewProject.current_image_path = Image.file_path img,
        NewProject.operations_history = js ''[]'',
        NewProject.is_public = CreateProjectInput.is_public input\<rparr> d = Inr (row, d')"
      using h ex ids path
      by (intro insert_projectsTable_returns)
        (simp_all add: or_null_nul_free stored_nul_free stored_empty_history)
    then show ?thesis
      using assms(3) found by (auto simp add: createProject_def Let_def)
  qed
  from created returns show ?thesis by blast
qed

theorem createProject_initial_values_witness:
  "\<exists>project d'.
     createProject 2000
       \<lparr>CreateProjectInput.name = js ''Test Project'',
        CreateProjectInput.description = Some (js ''A test project''),
        CreateProjectInput.original_image_id = Finite 1,
        CreateProjectInput.is_public = True\<rparr> testDB = Inr (project, d') \<and>
     Project.current_image_path project = js ''/uploads/test-image.jpg'' \<and>
     Project.operations_history project = js ''[]'' \<and>
     projectsTable d' = [project] \<and>
     getProject (Finite (of_int (Project.id' project))) d' = Inr (Some project)"
  using createProject_initial_values
    [of testDB testImage
        "\<lparr>CreateProjectInput.name = js ''Test Project'',
          CreateProjectInput.description = Some (js ''A test project''),
          CreateProjectInput.original_image_id = Finite 1,
          CreateProjectInput.is_public = True\<rparr>" 2000]
  by (simp add: wf_db_testDB nul_free_js length_js)
    (auto simp add: fixtures)

text \<open>
  For every input the schema accepts \<^verbatim>\<open>createProject\<close> does not return a project: the
  schema puts no bound on the length of the name, and the column \<^verbatim>\<open>name\<close> is a
  \<^verbatim>\<open>varchar(255)\<close>. With the stored image 1 and a name of 256 letters \<^verbatim>\<open>a\<close> the schema
  accepts the input and \<^verbatim>\<open>createProject\<close> throws the error of the insert.
\<close>

theorem createProject_schema_input_refused:
  "createProjectInputSchema
     \<lparr>CreateProjectInput.name = replicate 256 (Scalar 97),
      CreateProjectInput.description = None,
      CreateProjectInput.original_image_id = Finite 1,
      CreateProjectInput.is_public = False\<rparr> \<and>
   image_exists 1 testDB \<and>
   createProject 2000
     \<lparr>CreateProjectInput.name = replicate 256 (Scalar 97),
      CreateProjectInput.description = None,
      CreateProjectInput.original_image_id = Finite 1,
      CreateProjectInput.is_public = False\<rparr> testDB = Inl DatabaseError"
  by (simp add: createProjectInputSchema_def image_exists_def createProject_def Let_def
      testDB_def createDB_def testImage_def stored_js text_stored
      insert_projectsTable_def varchar_def text'_def toWellFormed_def list_ex_iff list_all_iff)

section \<open>Listing projects\<close>



text \<open>
  Without the filter the page is cut from all rows of the table in the same way: with
  limit 2 and offset 4 over five rows, it has one row and the total is 5.
\<close>

lemma listProjects_unfiltered:
  assumes "\<not> ListProjectsInput.public_only input"
  shows "\<exists>page. listProjects input d = Inr page \<and>
     ProjectsPage.projects page =
       take (ListProjectsInput.limit input) (drop (ListProjectsInput.offset input) (projectsTable d)) \<and>
     ProjectsPage.total page = length (projectsTable d) \<and>
     (ListProjectsInput.limit input = 2 \<and> ListProjectsInput.offset input = 4 \<and>
      length (projectsTable d) = 5 \<longrightarrow>
        length (ProjectsPage.projects page) = 1 \<and> ProjectsPage.total page = 5)"
  using assms by (simp add: listProjects_def Let_def)


section \<open>Updating a project\<close>

text \<open>
  C4. The claim asks \<^verbatim>\<open>updateProject\<close> to return the updated row of an existing project.
  The handler under \<^verbatim>\<open>server/src/handlers/update_project.ts\<close> does not: in the seeded
  store, project 1 exists, and the update of its name returns \<^verbatim>\<open>null\<close> and leaves the
  store as it was.
\<close>

theorem updateProject_returns_null_for_stored_project:
  "getProject (Finite 1) seededDB = Inr (Some (testProject 1 True)) \<and>
   updateProject
     \<lparr>UpdateProjectInput.id' = Finite 1,
      UpdateProjectInput.name = Some (js ''Updated Project Name''),
      UpdateProjectInput.description = None,
      UpdateProjectInput.current_image_path = None,
      UpdateProjectInput.operations_history = None,
      UpdateProjectInput.is_public = None\<rparr> seededDB = Inr (None, seededDB)"
  by (simp add: updateProject_def getProject_def seededDB_def testDB_def createDB_def
      testProject_def Let_def)

end
